theory Spec2Isabelle
  imports Main "HOL-Library.Sublist" "HOL-Library.Char_ord"
begin

section \<open>Python strings\<close>

text \<open>
  A Python \<open>str\<close> is modelled as the list of its code points, each below 256 (the
  type \<^typ>\<open>char\<close>). On these strings \<open>lower()\<close> is modelled exactly: it maps the
  letters A to Z and the capital letters U+00C0 to U+00DE, the multiplication sign
  U+00D7 apart, to the code point 32 above, and leaves every other code point alone.
  The code applies \<open>upper()\<close> and \<open>title()\<close> to the values of its enumerations only;
  they are modelled on the ASCII letters. In the functions that update a file, the text
  of a node and the contents of a file are modelled decoded, a byte being a character,
  as it is in ASCII text. The splice itself is also modelled on bytes, with the decoding
  and the encoding that the source does and the raises of both
  (\<open>insert_code_into_position_utf8\<close>).
\<close>

datatype error =
    ValueError string
  | RuntimeError string
  | IndexError string
  | UnicodeDecodeError
  | UnicodeEncodeError

definition is_upper_A_Z :: "char \<Rightarrow> bool" where
  "is_upper_A_Z c = (CHR ''A'' \<le> c \<and> c \<le> CHR ''Z'')"

definition is_lower_a_z :: "char \<Rightarrow> bool" where
  "is_lower_a_z c = (CHR ''a'' \<le> c \<and> c \<le> CHR ''z'')"

definition is_upper_latin1 :: "char \<Rightarrow> bool" where
  "is_upper_latin1 c = (CHR 0xC0 \<le> c \<and> c \<le> CHR 0xDE \<and> c \<noteq> CHR 0xD7)"

text \<open>A capital letter and its lower-case form differ in bit 5 (value 32).\<close>

definition lower_char :: "char \<Rightarrow> char" where
  "lower_char c =
     (if is_upper_A_Z c \<or> is_upper_latin1 c
      then Char (digit0 c) (digit1 c) (digit2 c) (digit3 c) (digit4 c) True (digit6 c) (digit7 c)
      else c)"

definition upper_char :: "char \<Rightarrow> char" where
  "upper_char c =
     (if is_lower_a_z c
      then Char (digit0 c) (digit1 c) (digit2 c) (digit3 c) (digit4 c) False (digit6 c) (digit7 c)
      else c)"

definition str_lower :: "string \<Rightarrow> string" where
  "str_lower s = map lower_char s"

definition str_upper :: "string \<Rightarrow> string" where
  "str_upper s = map upper_char s"

text \<open>\<open>str.title()\<close>: a letter that follows a letter is lower-cased, any other letter is
  upper-cased.\<close>

fun title_from :: "bool \<Rightarrow> string \<Rightarrow> string" where
  "title_from prev_cased [] = []"
| "title_from prev_cased (c # cs) =
     (if is_upper_A_Z c \<or> is_lower_a_z c
      then (if prev_cased then lower_char c else upper_char c) # title_from True cs
      else c # title_from False cs)"

definition str_title :: "string \<Rightarrow> string" where
  "str_title s = title_from False s"

definition str_bool :: "bool \<Rightarrow> string" where
  "str_bool b = (if b then ''True'' else ''False'')"

text \<open>\<open>sep.join(parts)\<close>.\<close>

fun join :: "string \<Rightarrow> string list \<Rightarrow> string" where
  "join sep [] = []"
| "join sep [x] = x"
| "join sep (x # y # ys) = x @ sep @ join sep (y # ys)"

text \<open>Slices \<open>s[:i]\<close> and \<open>s[i:]\<close>: a negative index counts from the end, and an index
  beyond either end is clamped.\<close>

definition py_slice_to :: "'a list \<Rightarrow> int \<Rightarrow> 'a list" where
  "py_slice_to s i = (if i < 0 then take (nat (int (length s) + i)) s else take (nat i) s)"

definition py_slice_from :: "'a list \<Rightarrow> int \<Rightarrow> 'a list" where
  "py_slice_from s i = (if i < 0 then drop (nat (int (length s) + i)) s else drop (nat i) s)"

text \<open>Indexing \<open>s[i]\<close> raises outside the string.\<close>

definition py_index :: "string \<Rightarrow> int \<Rightarrow> error + char" where
  "py_index s i =
     (let k = (if i < 0 then int (length s) + i else i)
      in if k < 0 \<or> int (length s) \<le> k
         then Inl (IndexError ''string index out of range'')
         else Inr (s ! nat k))"

definition endswith :: "string \<Rightarrow> string \<Rightarrow> bool" where
  "endswith s suf = (length suf \<le> length s \<and> drop (length s - length suf) s = suf)"

definition endswith_any :: "string \<Rightarrow> string list \<Rightarrow> bool" where
  "endswith_any s sufs = list_ex (endswith s) sufs"

subsection \<open>Bytes and UTF-8\<close>

text \<open>
  Where the encoding matters, bytes and text are kept apart: a \<open>bytes\<close> value is a list
  of \<^typ>\<open>char\<close> (each a byte), and a \<open>str\<close> is the list of its code points as natural
  numbers. \<open>str.encode()\<close> and \<open>bytes.decode()\<close> use UTF-8 and are strict: encoding
  raises on a lone surrogate, and decoding raises on a byte that starts no sequence, on a
  truncated sequence, on an overlong form, on an encoded surrogate and on a code point
  above U+10FFFF. \<open>None\<close> stands for the raise.
\<close>

definition is_scalar_value :: "nat \<Rightarrow> bool" where
  "is_scalar_value cp = (cp < 0xD800 \<or> (0xDFFF < cp \<and> cp < 0x110000))"

definition utf8_char :: "nat \<Rightarrow> string" where
  "utf8_char cp =
     (if cp < 0x80 then [char_of cp]
      else if cp < 0x800 then [char_of (0xC0 + cp div 64), char_of (0x80 + cp mod 64)]
      else if cp < 0x10000
      then [char_of (0xE0 + cp div 4096), char_of (0x80 + cp div 64 mod 64),
            char_of (0x80 + cp mod 64)]
      else [char_of (0xF0 + cp div 262144), char_of (0x80 + cp div 4096 mod 64),
            char_of (0x80 + cp div 64 mod 64), char_of (0x80 + cp mod 64)])"

definition utf8_bytes :: "nat list \<Rightarrow> string" where
  "utf8_bytes s = concat (map utf8_char s)"

definition str_encode :: "nat list \<Rightarrow> string option" where
  "str_encode s = (if list_all is_scalar_value s then Some (utf8_bytes s) else None)"

definition is_continuation :: "nat \<Rightarrow> bool" where
  "is_continuation n = (0x80 \<le> n \<and> n \<le> 0xBF)"

text \<open>The code point of a sequence of two, three and four bytes, when it is well formed.\<close>

definition decode2 :: "nat \<Rightarrow> nat \<Rightarrow> nat option" where
  "decode2 n0 n1 =
     (if 0xC2 \<le> n0 \<and> n0 \<le> 0xDF \<and> is_continuation n1
      then Some ((n0 - 0xC0) * 64 + (n1 - 0x80)) else None)"

definition decode3 :: "nat \<Rightarrow> nat \<Rightarrow> nat \<Rightarrow> nat option" where
  "decode3 n0 n1 n2 =
     (if 0xE0 \<le> n0 \<and> n0 \<le> 0xEF \<and>
         (if n0 = 0xE0 then 0xA0 \<le> n1 \<and> n1 \<le> 0xBF
          else if n0 = 0xED then 0x80 \<le> n1 \<and> n1 \<le> 0x9F
          else is_continuation n1) \<and>
         is_continuation n2
      then Some ((n0 - 0xE0) * 4096 + (n1 - 0x80) * 64 + (n2 - 0x80)) else None)"

definition decode4 :: "nat \<Rightarrow> nat \<Rightarrow> nat \<Rightarrow> nat \<Rightarrow> nat option" where
  "decode4 n0 n1 n2 n3 =
     (if 0xF0 \<le> n0 \<and> n0 \<le> 0xF4 \<and>
         (if n0 = 0xF0 then 0x90 \<le> n1 \<and> n1 \<le> 0xBF
          else if n0 = 0xF4 then 0x80 \<le> n1 \<and> n1 \<le> 0x8F
          else is_continuation n1) \<and>
         is_continuation n2 \<and> is_continuation n3
      then Some ((n0 - 0xF0) * 262144 + (n1 - 0x80) * 4096 + (n2 - 0x80) * 64 + (n3 - 0x80))
      else None)"

fun bytes_decode :: "string \<Rightarrow> nat list option" where
  "bytes_decode [] = Some []"
| "bytes_decode (b0 # bs) =
     (if (of_char b0 :: nat) < 0x80 then map_option ((#) (of_char b0)) (bytes_decode bs)
      else case bs of
        [] \<Rightarrow> None
      | b1 # bs1 \<Rightarrow>
          (case decode2 (of_char b0) (of_char b1) of
             Some cp \<Rightarrow> map_option ((#) cp) (bytes_decode bs1)
           | None \<Rightarrow>
               (case bs1 of
                  [] \<Rightarrow> None
                | b2 # bs2 \<Rightarrow>
                    (case decode3 (of_char b0) (of_char b1) (of_char b2) of
                       Some cp \<Rightarrow> map_option ((#) cp) (bytes_decode bs2)
                     | None \<Rightarrow>
                         (case bs2 of
                            [] \<Rightarrow> None
                          | b3 # bs3 \<Rightarrow>
                              (case decode4 (of_char b0) (of_char b1) (of_char b2)
                                      (of_char b3) of
                                 Some cp \<Rightarrow> map_option ((#) cp) (bytes_decode bs3)
                               | None \<Rightarrow> None))))))"

definition is_ascii_text :: "string \<Rightarrow> bool" where
  "is_ascii_text bs = list_all (\<lambda>b. (of_char b :: nat) < 0x80) bs"

section \<open>Name derivation (lib/commonhelper.py)\<close>

definition pluralize :: "string \<Rightarrow> error + string" where
  "pluralize word =
     (let otherwise =
            (if endswith word ''f'' then Inr (py_slice_to word (- 1) @ ''ves'')
             else if endswith word ''fe'' then Inr (py_slice_to word (- 2) @ ''ves'')
             else Inr (word @ ''s''))
      in if endswith_any word [''s'', ''sh'', ''ch'', ''x'', ''z''] then Inr (word @ ''es'')
         else if endswith word ''y''
         then (case py_index word (- 2) of
                 Inl e \<Rightarrow> Inl e
               | Inr ch \<Rightarrow>
                   if ch \<notin> set ''aeiou'' then Inr (py_slice_to word (- 1) @ ''ies'')
                   else otherwise)
         else otherwise)"

definition generate_field_name :: "string \<Rightarrow> bool \<Rightarrow> error + string" where
  "generate_field_name field_type plural =
     (case (if plural then pluralize field_type else Inr field_type) of
        Inl e \<Rightarrow> Inl e
      | Inr field_name \<Rightarrow>
          (case py_index field_name 0 of
             Inl e \<Rightarrow> Inl e
           | Inr c0 \<Rightarrow> Inr (str_lower [c0] @ py_slice_from field_name 1)))"

text \<open>
  \<open>sub(r"(?<!^)(?=[A-Z])", "_", field_name)\<close>: the pattern matches the empty string at
  every position that is not the start of the string and is followed by a letter of
  \<open>[A-Z]\<close>; each match is replaced by an underscore. The first argument is the position.
\<close>

fun sub_upper_boundaries :: "nat \<Rightarrow> string \<Rightarrow> string" where
  "sub_upper_boundaries p [] = []"
| "sub_upper_boundaries p (c # cs) =
     (if p \<noteq> 0 \<and> is_upper_A_Z c
      then CHR ''_'' # c # sub_upper_boundaries (Suc p) cs
      else c # sub_upper_boundaries (Suc p) cs)"

definition generate_snaked_field_name :: "string \<Rightarrow> string" where
  "generate_snaked_field_name field_name = str_lower (sub_upper_boundaries 0 field_name)"

text \<open>The snake-case rule in words: the first character is only lower-cased; every later
  character is lower-cased, after an underscore when it is a letter of A to Z and
  without one otherwise.\<close>

definition snake_case_spec :: "string \<Rightarrow> string" where
  "snake_case_spec s =
     (case s of
        [] \<Rightarrow> []
      | c # cs \<Rightarrow>
          lower_char c #
          concat (map (\<lambda>x. if is_upper_A_Z x then [CHR ''_'', lower_char x] else [lower_char x]) cs))"

section \<open>Types of the relationship commands\<close>

text \<open>
  Modelled from the spec: the modules under \<open>custom_types\<close> are not part of the sources.
  The enumerations carry the members the code names and the vocabulary of the
  specification; \<open>value\<close> is the lower-case member name, which the code only reads
  through \<open>upper()\<close> and \<open>title()\<close>.
\<close>

datatype CascadeType = PERSIST | MERGE | REMOVE | REFRESH | DETACH

datatype FetchType = LAZY | EAGER | NONE

datatype CollectionType = SET | LIST | COLLECTION

datatype MappingType =
    UNIDIRECTIONAL_JOIN_COLUMN
  | BIDIRECTIONAL_JOIN_COLUMN
  | UNIDIRECTIONAL_JOIN_TABLE
  | BIDIRECTIONAL_JOIN_TABLE

datatype Other = MANDATORY | UNIQUE | ORPHAN_REMOVAL | EQUALS_HASHCODE

fun FetchType_value :: "FetchType \<Rightarrow> string" where
  "FetchType_value LAZY = ''lazy''"
| "FetchType_value EAGER = ''eager''"
| "FetchType_value NONE = ''none''"

fun CollectionType_value :: "CollectionType \<Rightarrow> string" where
  "CollectionType_value SET = ''set''"
| "CollectionType_value LIST = ''list''"
| "CollectionType_value COLLECTION = ''collection''"

section \<open>Syntax trees (utils/treesitter\_utils.py)\<close>

text \<open>
  A node of the parser library: its type tag, the field name it carries in its parent,
  its text, and its children in document order. The parser itself is a parameter
  \<open>parse\<close> of the operations that call it.
\<close>

datatype Node =
  Node (node_type: string) (node_field: "string option") (node_text: "string option")
    (children: "Node list")

record Tree =
  root_node :: Node

text \<open>The files on disk, the commands sent to the editor, and the pending imports.\<close>

record state =
  files :: "string \<rightharpoonup> string"
  nvim_commands :: "string list"
  importing_list :: "string list"

definition child_by_field_name :: "Node \<Rightarrow> string \<Rightarrow> Node option" where
  "child_by_field_name node name = find (\<lambda>c. node_field c = Some name) (children node)"

fun nodes_of :: "Node \<Rightarrow> Node list" where
  "nodes_of (Node ty fld txt cs) = Node ty fld txt cs # concat (map nodes_of cs)"

text \<open>
  \<open>query_match\<close> is only ever called with the pattern \<open>(class_declaration) @class_decl\<close>,
  which captures every class declaration of the tree in document order; with that
  fixed pattern neither the creation of the query nor the matching raises.
\<close>

definition query_match :: "Tree \<Rightarrow> string \<Rightarrow> Node list" where
  "query_match tree query_param =
     (if query_param = ''(class_declaration) @class_decl''
      then filter (\<lambda>n. node_type n = ''class_declaration'') (nodes_of (root_node tree))
      else [])"

text \<open>\<open>s.split(sep)\<close> for a separator of one character.\<close>

fun str_split :: "char \<Rightarrow> string \<Rightarrow> string list" where
  "str_split sep [] = [[]]"
| "str_split sep (c # cs) =
     (if c = sep then [] # str_split sep cs
      else (case str_split sep cs of
              [] \<Rightarrow> [[c]]
            | x # xs \<Rightarrow> (c # x) # xs))"

definition truthy_text :: "string option \<Rightarrow> bool" where
  "truthy_text t = (case t of None \<Rightarrow> False | Some b \<Rightarrow> b \<noteq> [])"

definition is_public_modifiers :: "Node \<Rightarrow> bool" where
  "is_public_modifiers child_node =
     (node_type child_node = ''modifiers'' \<and> truthy_text (node_text child_node) \<and>
      last (str_split (CHR 0x0A) (the (node_text child_node))) = ''public'')"

definition get_buffer_public_class_node_from_query_results :: "Node list \<Rightarrow> Node option" where
  "get_buffer_public_class_node_from_query_results query_results =
     fold (\<lambda>node public_class_node.
             fold (\<lambda>child_node found. if is_public_modifiers child_node then Some node else found)
               (children node) public_class_node)
       query_results None"

definition is_method_named :: "string \<Rightarrow> Node \<Rightarrow> bool" where
  "is_method_named method_name child =
     (node_type child = ''method_declaration'' \<and>
      (case child_by_field_name child ''name'' of
         None \<Rightarrow> False
       | Some node_name \<Rightarrow> truthy_text (node_text node_name) \<and> the (node_text node_name) = method_name))"

definition buffer_public_class_has_method :: "Tree \<Rightarrow> string \<Rightarrow> bool" where
  "buffer_public_class_has_method tree method_name =
     (case get_buffer_public_class_node_from_query_results
             (query_match tree ''(class_declaration) @class_decl'') of
        None \<Rightarrow> False
      | Some public_class_node \<Rightarrow>
          (case child_by_field_name public_class_node ''body'' of
             None \<Rightarrow> False
           | Some body \<Rightarrow>
               fold (\<lambda>child has. if is_method_named method_name child then True else has)
                 (children body) False))"

text \<open>
  \<open>convert_buffer_to_tree\<close>: the buffer is a path, which is read, or bytes. The parser
  is a parameter. A path that cannot be read gives the \<open>RuntimeError\<close> of the source;
  its message is kept up to the fixed part, where the source goes on with the path and
  the text of the operating-system error.
\<close>

datatype buffer = Path_buffer string | Bytes_buffer string

definition convert_buffer_to_tree ::
  "(string \<Rightarrow> Tree) \<Rightarrow> (string \<rightharpoonup> string) \<Rightarrow> buffer \<Rightarrow> error + Tree" where
  "convert_buffer_to_tree parse fs buffer =
     (case buffer of
        Path_buffer p \<Rightarrow>
          (case fs p of
             None \<Rightarrow> Inl (RuntimeError ''Error parsing buffer to tree: Error reading from file path'')
           | Some buffer_bytes \<Rightarrow> Inr (parse buffer_bytes))
      | Bytes_buffer buffer_bytes \<Rightarrow> Inr (parse buffer_bytes))"

text \<open>
  \<open>insert_code_into_position\<close> on decoded text: \<open>decode()\<close> and \<open>encode()\<close> change
  nothing, and the offset is an index into the text.
\<close>

definition insert_code_into_position ::
  "(string \<Rightarrow> Tree) \<Rightarrow> (string \<rightharpoonup> string) \<Rightarrow> Tree \<Rightarrow> string \<Rightarrow> int \<Rightarrow> error + Tree" where
  "insert_code_into_position parse fs tree code insert_position =
     (if \<not> truthy_text (node_text (root_node tree))
      then Inl (ValueError ''Unable to convert root node's text to bytes'')
      else
        let buffer_string = the (node_text (root_node tree));
            modified_buffer_string =
              py_slice_to buffer_string insert_position @ code @
              py_slice_from buffer_string insert_position
        in convert_buffer_to_tree parse fs (Bytes_buffer modified_buffer_string))"

text \<open>
  \<open>insert_code_into_position\<close> with the encoding written out: the root text is bytes,
  \<open>decode()\<close> turns it into a string or raises, the slices and the fragment are strings,
  so that \<open>insert_position\<close> counts characters, and \<open>encode()\<close> turns the result into
  the bytes that are parsed. On ASCII text, where a byte is a character, it is the
  function above (lemma \<open>insert_code_into_position_utf8_ascii\<close>).
\<close>

definition insert_code_into_position_utf8 ::
  "(string \<Rightarrow> Tree) \<Rightarrow> (string \<rightharpoonup> string) \<Rightarrow> Tree \<Rightarrow> nat list \<Rightarrow> int \<Rightarrow> error + Tree" where
  "insert_code_into_position_utf8 parse fs tree code insert_position =
     (if \<not> truthy_text (node_text (root_node tree))
      then Inl (ValueError ''Unable to convert root node's text to bytes'')
      else
        case bytes_decode (the (node_text (root_node tree))) of
          None \<Rightarrow> Inl UnicodeDecodeError
        | Some buffer_string \<Rightarrow>
            (let modified_buffer_string =
                   py_slice_to buffer_string insert_position @ code @
                   py_slice_from buffer_string insert_position
             in case str_encode modified_buffer_string of
                  None \<Rightarrow> Inl UnicodeEncodeError
                | Some modified_bytes \<Rightarrow>
                    convert_buffer_to_tree parse fs (Bytes_buffer modified_bytes)))"


text \<open>
  Modelled from the spec: \<open>insert_code_at_position(code, position, tree)\<close>, which the
  relationship module calls, is not in the sources; it is the specification's
  splice-and-reparse operation, which the syntax-tree module implements as
  \<open>insert_code_into_position\<close>.
\<close>

definition insert_code_at_position ::
  "(string \<Rightarrow> Tree) \<Rightarrow> (string \<rightharpoonup> string) \<Rightarrow> string \<Rightarrow> int \<Rightarrow> Tree \<Rightarrow> error + Tree" where
  "insert_code_at_position parse fs code insert_position tree =
     insert_code_into_position parse fs tree code insert_position"

text \<open>\<open>TreesitterUtils.update_buffer\<close>: write the text of the tree to the path, then
  tell the editor.\<close>

definition treesitter_utils_update_buffer ::
  "Tree \<Rightarrow> string \<Rightarrow> bool \<Rightarrow> bool \<Rightarrow> bool \<Rightarrow> state \<Rightarrow> (error + unit) \<times> state" where
  "treesitter_utils_update_buffer tree buffer_path save format organize_imports st =
     (if \<not> truthy_text (node_text (root_node tree))
      then (Inl (ValueError ''Root node doesn't have text''), st)
      else
        let written = st\<lparr>files := (files st)(buffer_path \<mapsto> the (node_text (root_node tree)))\<rparr>;
            commands =
              [''e '' @ buffer_path] @
              (if save then [''w '' @ buffer_path] else []) @
              (if organize_imports then [''lua require('jdtls').organize_imports()''] else []) @
              (if format \<and> \<not> save then [''lua vim.lsp.buf.format({ async = true })''] else [])
        in (Inr (), written\<lparr>nvim_commands := nvim_commands written @ commands\<rparr>))"

section \<open>Relationship templates (utils/entity\_rel\_utils.py)\<close>

text \<open>Modelled from the spec: the file record and the argument records of the commands
  (\<open>custom_types\<close>), with the fields the code reads.\<close>

record JavaFileData =
  file_name :: string
  package_path :: string
  path :: string
  tree :: Tree
  is_jpa_entity :: bool

record CreateManyToOneRelArgs =
  fetch_type_enum :: FetchType
  collection_type_enum :: CollectionType
  mapping_type_enum :: MappingType
  owning_side_cascades_enum :: "CascadeType set"
  inverse_side_cascades_enum :: "CascadeType set"
  owning_side_other_enum :: "Other set"
  inverse_side_other_enum :: "Other set"

record CreateManyToManyRelArgs =
  mtm_mapping_type_enum :: MappingType
  mtm_owning_side_cascades_enum :: "CascadeType set"
  mtm_inverse_side_cascades_enum :: "CascadeType set"
  mtm_inverse_side_other_enum :: "Other set"

text \<open>
  Modelled from the spec: \<open>add_to_importing_list\<close> of the syntax-tree module is not in
  the sources. The pending imports are a set keyed by exact string, so the model
  appends each requested import that is not pending yet. Every generator takes the
  pending imports and returns them updated beside its text. Diagnostic logging is left
  out.
\<close>

definition add_to_importing_list :: "string list \<Rightarrow> string list \<Rightarrow> string list" where
  "add_to_importing_list imports_to_add pending =
     fold (\<lambda>i acc. if i \<in> set acc then acc else acc @ [i]) imports_to_add pending"

text \<open>
  Modelled from the spec: \<open>utils.common_utils\<close> is not in the sources. Its
  \<open>convert_to_snake_case\<close> and \<open>generate_field_name\<close> are the specification's snake-case
  and field-name derivations, which \<open>lib/commonhelper.py\<close> implements as
  \<open>generate_snaked_field_name\<close> and \<open>generate_field_name\<close>.
\<close>

definition convert_to_snake_case :: "string \<Rightarrow> string" where
  "convert_to_snake_case field_type = generate_snaked_field_name field_type"

definition cascades_list :: "bool \<Rightarrow> bool \<Rightarrow> bool \<Rightarrow> bool \<Rightarrow> bool \<Rightarrow> string list" where
  "cascades_list cascade_persist cascade_merge cascade_remove cascade_refresh cascade_detach =
     (if cascade_persist then [''PERSIST''] else []) @
     (if cascade_merge then [''MERGE''] else []) @
     (if cascade_remove then [''REMOVE''] else []) @
     (if cascade_refresh then [''REFRESH''] else []) @
     (if cascade_detach then [''DETACH''] else [])"

definition process_cascades_params ::
  "bool \<Rightarrow> bool \<Rightarrow> bool \<Rightarrow> bool \<Rightarrow> bool \<Rightarrow> string list \<Rightarrow> string option \<times> string list" where
  "process_cascades_params cascade_persist cascade_merge cascade_remove cascade_refresh
       cascade_detach pending =
     (let cascades =
            cascades_list cascade_persist cascade_merge cascade_remove cascade_refresh
              cascade_detach;
          merged_params =
            (if length cascades = 5 then Some ''cascade = CascadeType.ALL''
             else if length cascades = 1 then Some (''cascade = CascadeType.'' @ cascades ! 0)
             else if length cascades = 0 then None
             else Some (''cascade = {'' @
                        join '', '' (map (\<lambda>c. ''CascadeType.'' @ c) cascades) @ ''}''))
      in (merged_params, add_to_importing_list [''jakarta.persistence.CascadeType''] pending))"

definition process_extra_params ::
  "bool option \<Rightarrow> bool option \<Rightarrow> bool option \<Rightarrow> bool option \<Rightarrow> FetchType option \<Rightarrow>
   string option \<Rightarrow> string option \<Rightarrow> string list \<Rightarrow> string \<times> string list" where
  \<open>process_extra_params nullable optional unique orphan_removal fetch_type name mapped_by
       pending =
     (let params =
            (case name of None \<Rightarrow> [] | Some n \<Rightarrow> [''name = "'' @ n @ ''"'']) @
            (case mapped_by of None \<Rightarrow> [] | Some m \<Rightarrow> [''mappedBy = "'' @ str_lower m @ ''"'']) @
            (case nullable of None \<Rightarrow> []
             | Some b \<Rightarrow> [''nullable = '' @ str_lower (str_bool b)]) @
            (case optional of None \<Rightarrow> []
             | Some b \<Rightarrow> [''optional = '' @ str_lower (str_bool b)]) @
            (case unique of None \<Rightarrow> []
             | Some b \<Rightarrow> [''unique = '' @ str_lower (str_bool b)]) @
            (case orphan_removal of None \<Rightarrow> []
             | Some b \<Rightarrow> [''orphanRemoval = '' @ str_lower (str_bool b)]) @
            (case fetch_type of None \<Rightarrow> []
             | Some f \<Rightarrow> [''fetch = FetchType.'' @ str_upper (FetchType_value f)]);
          imports_to_add =
            (case fetch_type of None \<Rightarrow> [] | Some f \<Rightarrow> [''jakarta.persistence.FetchType''])
      in (join '', '' params, add_to_importing_list imports_to_add pending))\<close>

text \<open>The shared tail of the annotation builders: the cascade parameter joins the list
  when it is a non-empty string, and the list is parenthesised when it has a member.\<close>

definition annotation_with_params :: "string \<Rightarrow> string list \<Rightarrow> string option \<Rightarrow> string" where
  "annotation_with_params body params cascade_param =
     (let params' =
            (case cascade_param of
               None \<Rightarrow> params
             | Some c \<Rightarrow> if c \<noteq> [] then params @ [c] else params)
      in if length params' > 0 then body @ ''('' @ join '', '' params' @ '')'' else body)"

text \<open>The two method texts of \<open>generate_equals_hashcode_methods\<close>, line by line.\<close>

definition equals_method :: "string \<Rightarrow> string \<Rightarrow> string" where
  "equals_method field_type snaked_field_name =
     join [CHR 0x0A]
       ['''',
        ''        @Override'',
        ''        public final boolean equals(Object o) {'',
        ''            if (this == o) return true;'',
        ''            if (o == null) return false;'',
        ''            Class<?> oEffectiveClass ='',
        ''                    o instanceof HibernateProxy'',
        ''                            ? ((HibernateProxy) o).getHibernateLazyInitializer().getPersistentClass()'',
        ''                            : o.getClass();'',
        ''            Class<?> thisEffectiveClass ='',
        ''                    this instanceof HibernateProxy'',
        ''                            ? ((HibernateProxy) this).getHibernateLazyInitializer().getPersistentClass()'',
        ''                            : this.getClass();'',
        ''            if (thisEffectiveClass != oEffectiveClass) return false;'',
        ''            '' @ field_type @ '' '' @ snaked_field_name @ '' = ('' @ field_type @ '') o;'',
        ''            return getId() != null && Objects.equals(getId(), '' @ snaked_field_name @
          ''.getId());'',
        ''        }'',
        ''        '']"

definition hashcode_method :: string where
  "hashcode_method =
     join [CHR 0x0A]
       ['''',
        ''        @Override'',
        ''        public final int hashCode() {'',
        ''            return this instanceof HibernateProxy'',
        ''                    ? ((HibernateProxy) this)'',
        ''                            .getHibernateLazyInitializer()'',
        ''                            .getPersistentClass()'',
        ''                            .hashCode()'',
        ''                    : getClass().hashCode();'',
        ''        }'',
        ''        '']"

definition generate_equals_hashcode_methods ::
  "string \<Rightarrow> Tree \<Rightarrow> string list \<Rightarrow> string option \<times> string list" where
  "generate_equals_hashcode_methods field_type file_tree pending =
     (let buffer_has_equals_method = buffer_public_class_has_method file_tree ''equals'';
          buffer_has_hashcode_method = buffer_public_class_has_method file_tree ''hashCode'';
          snaked_field_name = convert_to_snake_case field_type;
          pending' =
            add_to_importing_list [''org.hibernate.proxy.HibernateProxy'', ''java.util.Objects'']
              pending
      in if \<not> buffer_has_equals_method \<and> \<not> buffer_has_hashcode_method
         then (Some (equals_method field_type snaked_field_name @ [CHR 0x0A] @ hashcode_method),
               pending')
         else (None, pending'))"

definition generate_one_to_many_annotation_body ::
  "string \<Rightarrow> bool \<Rightarrow> bool \<Rightarrow> bool \<Rightarrow> bool \<Rightarrow> bool \<Rightarrow> bool \<Rightarrow> string list \<Rightarrow>
   string \<times> string list" where
  "generate_one_to_many_annotation_body one_field_type cascade_persist cascade_merge
       cascade_remove cascade_refresh cascade_detach orphan_removal pending =
     (let (cascade_param, pending1) =
            process_cascades_params cascade_persist cascade_merge cascade_remove
              cascade_refresh cascade_detach pending;
          (extra_params, pending2) =
            process_extra_params None None None (Some orphan_removal) None None
              (Some (convert_to_snake_case one_field_type)) pending1
      in (annotation_with_params ''@OneToMany'' [extra_params] cascade_param,
          add_to_importing_list [''jakarta.persistence.OneToMany''] pending2))"

definition generate_many_to_one_annotation_body ::
  "FetchType \<Rightarrow> bool \<Rightarrow> bool \<Rightarrow> bool \<Rightarrow> bool \<Rightarrow> bool \<Rightarrow> bool \<Rightarrow> string list \<Rightarrow>
   string \<times> string list" where
  "generate_many_to_one_annotation_body fetch_type cascade_persist cascade_merge
       cascade_remove cascade_refresh cascade_detach mandatory pending =
     (let (cascade_param, pending1) =
            process_cascades_params cascade_persist cascade_merge cascade_remove
              cascade_refresh cascade_detach pending;
          (extra_params, pending2) =
            process_extra_params None (Some (\<not> mandatory)) None None
              (if fetch_type \<noteq> NONE then Some fetch_type else None) None None pending1
      in (annotation_with_params ''@ManyToOne'' [extra_params] cascade_param,
          add_to_importing_list [''jakarta.persistence.ManyToOne''] pending2))"

definition generate_many_to_many_annotation_body ::
  "bool \<Rightarrow> bool \<Rightarrow> bool \<Rightarrow> bool \<Rightarrow> string option \<Rightarrow> string list \<Rightarrow> string \<times> string list" where
  "generate_many_to_many_annotation_body cascade_persist cascade_merge cascade_refresh
       cascade_detach mapped_by pending =
     (let (cascade_param, pending1) =
            process_cascades_params cascade_persist cascade_merge False cascade_refresh
              cascade_detach pending;
          (params, pending2) =
            (case mapped_by of
               None \<Rightarrow> ([], pending1)
             | Some m \<Rightarrow>
                 (let (extra_params, p) =
                        process_extra_params None None None None None None (Some m) pending1
                  in ([extra_params], p)))
      in (annotation_with_params ''@ManyToMany'' params cascade_param,
          add_to_importing_list [''jakarta.persistence.ManyToMany''] pending2))"

definition generate_join_table_body :: "string \<Rightarrow> string \<Rightarrow> string list \<Rightarrow> string \<times> string list" where
  \<open>generate_join_table_body owning_side_field_type inverse_side_field_type pending =
     (let snaked_owning_side_field_name = convert_to_snake_case owning_side_field_type;
          snaked_inverse_side_field_name = convert_to_snake_case inverse_side_field_type;
          body =
            ''@JoinTable('' @
            ''name = "'' @ snaked_owning_side_field_name @ ''_'' @
              snaked_inverse_side_field_name @ ''", '' @
            ''joinColumns = @JoinColumn(name = "'' @ snaked_owning_side_field_name @ ''_id"), '' @
            ''inverseJoinColumns = @JoinColumn(name = "'' @ snaked_inverse_side_field_name @
              ''_id")'' @
            '')''
      in (body,
          add_to_importing_list
            [''jakarta.persistence.JoinColumn'', ''jakarta.persistence.JoinTable''] pending))\<close>

definition generate_join_column_body ::
  "string \<Rightarrow> bool \<Rightarrow> bool \<Rightarrow> string list \<Rightarrow> string \<times> string list" where
  "generate_join_column_body inverse_side_field_type mandatory unique pending =
     (let snaked_field_name = convert_to_snake_case inverse_side_field_type @ ''_id'';
          (extra_params, pending1) =
            process_extra_params (Some (\<not> mandatory)) None (Some unique) None None
              (Some snaked_field_name) None pending
      in (''@JoinColumn'' @ ''('' @ extra_params @ '')'',
          add_to_importing_list [''jakarta.persistence.JoinColumn''] pending1))"

definition generate_field_body ::
  "string \<Rightarrow> bool \<Rightarrow> CollectionType option \<Rightarrow> string list \<Rightarrow> (error + string) \<times> string list" where
  "generate_field_body field_type is_collection collection_type pending =
     (let collection_name =
            (case collection_type of
               None \<Rightarrow> ''''
             | Some ct \<Rightarrow> if is_collection then str_title (CollectionType_value ct) else '''')
      in case generate_field_name field_type (if is_collection then True else False) of
           Inl e \<Rightarrow> (Inl e, pending)
         | Inr field_name \<Rightarrow>
             (let initialization =
                    (if collection_type = Some SET then ''LinkedHashSet<>()''
                     else ''ArrayList<>()'');
                  imports_to_add =
                    (if collection_type = Some SET
                     then [''java.util.Set'', ''java.util.LinkedHashSet''] else []) @
                    (if collection_type = Some LIST
                     then [''java.util.List'', ''java.util.ArrayList''] else []) @
                    (if collection_type = Some COLLECTION
                     then [''java.util.Collection'', ''java.util.ArrayList''] else []);
                  body =
                    ''private '' @ collection_name @
                    (if is_collection then ''<'' else '''') @ field_type @
                    (if is_collection then ''>'' else '''') @ '' '' @
                    field_name @
                    (if is_collection then '' = new '' @ initialization else '''') @ '';''
              in (Inr body, add_to_importing_list imports_to_add pending)))"

definition generate_one_to_many_template ::
  "JavaFileData \<Rightarrow> JavaFileData \<Rightarrow> bool \<Rightarrow> bool \<Rightarrow> bool \<Rightarrow> bool \<Rightarrow> bool \<Rightarrow> bool \<Rightarrow>
   CollectionType \<Rightarrow> string list \<Rightarrow> (error + string) \<times> string list" where
  "generate_one_to_many_template owning_side_file_data inverse_side_file_data cascade_persist
       cascade_merge cascade_remove cascade_refresh cascade_detach orphan_removal
       collection_type pending =
     (let imports_to_add =
            [package_path owning_side_file_data @ ''.'' @ file_name owning_side_file_data];
          (one_to_many_body, pending1) =
            generate_one_to_many_annotation_body (file_name inverse_side_file_data)
              cascade_persist cascade_merge cascade_remove cascade_refresh cascade_detach
              orphan_removal pending
      in case generate_field_body (file_name owning_side_file_data) True (Some collection_type)
                pending1 of
           (Inl e, pending2) \<Rightarrow> (Inl e, pending2)
         | (Inr field_body, pending2) \<Rightarrow>
             (Inr ([CHR 0x0A, CHR 0x09] @ one_to_many_body @ [CHR 0x0A, CHR 0x09] @ field_body @
                   [CHR 0x0A]),
              add_to_importing_list imports_to_add pending2))"

definition generate_many_to_one_template ::
  "JavaFileData \<Rightarrow> FetchType \<Rightarrow> bool \<Rightarrow> bool \<Rightarrow> bool \<Rightarrow> bool \<Rightarrow> bool \<Rightarrow> bool \<Rightarrow> bool \<Rightarrow>
   string list \<Rightarrow> (error + string) \<times> string list" where
  "generate_many_to_one_template inverse_side_file_data fetch_type cascade_persist
       cascade_merge cascade_remove cascade_refresh cascade_detach mandatory unique pending =
     (let imports_to_add =
            [package_path inverse_side_file_data @ ''.'' @ file_name inverse_side_file_data];
          (many_to_one_body, pending1) =
            generate_many_to_one_annotation_body fetch_type cascade_persist cascade_merge
              cascade_remove cascade_refresh cascade_detach mandatory pending;
          (join_column_body, pending2) =
            generate_join_column_body (file_name inverse_side_file_data) mandatory unique
              pending1
      in case generate_field_body (file_name inverse_side_file_data) False None pending2 of
           (Inl e, pending3) \<Rightarrow> (Inl e, pending3)
         | (Inr field_body, pending3) \<Rightarrow>
             (Inr ([CHR 0x0A, CHR 0x09] @ many_to_one_body @ [CHR 0x0A, CHR 0x09] @
                   join_column_body @ [CHR 0x0A, CHR 0x09] @ field_body @ [CHR 0x0A]),
              add_to_importing_list imports_to_add pending3))"

definition generate_many_to_many_field_template ::
  "JavaFileData \<Rightarrow> JavaFileData \<Rightarrow> bool \<Rightarrow> bool \<Rightarrow> bool \<Rightarrow> bool \<Rightarrow> bool \<Rightarrow> bool \<Rightarrow>
   string list \<Rightarrow> (error + string) \<times> string list" where
  "generate_many_to_many_field_template owning_side_file_data inverse_side_file_data
       cascade_persist cascade_merge cascade_refresh cascade_detach equals_hashcode
       owning_side pending =
     (let inverse_import =
            package_path inverse_side_file_data @ ''.'' @ file_name inverse_side_file_data;
          (many_to_many_body, pending1) =
            generate_many_to_many_annotation_body cascade_persist cascade_merge cascade_refresh
              cascade_detach
              (if \<not> owning_side then Some (file_name inverse_side_file_data) else None) pending;
          (join_table_body, pending2) =
            (if owning_side
             then generate_join_table_body (file_name owning_side_file_data)
                    (file_name inverse_side_file_data) pending1
             else ('''', pending1))
      in case generate_field_body
                (if owning_side then file_name inverse_side_file_data
                 else file_name owning_side_file_data) True (Some SET) pending2 of
           (Inl e, pending3) \<Rightarrow> (Inl e, pending3)
         | (Inr field_body, pending3) \<Rightarrow>
             (let imports_to_add =
                    (if owning_side then [inverse_import]
                     else [inverse_import,
                           package_path owning_side_file_data @ ''.'' @
                           file_name owning_side_file_data]);
                  complete_field_body =
                    [CHR 0x0A, CHR 0x09] @ many_to_many_body @
                    (if owning_side then [CHR 0x0A, CHR 0x09] @ join_table_body else '''') @
                    [CHR 0x0A, CHR 0x09] @ field_body @ [CHR 0x0A];
                  (equals_and_hashcode, pending4) =
                    (if \<not> owning_side \<and> equals_hashcode
                     then generate_equals_hashcode_methods (file_name inverse_side_file_data)
                            (tree inverse_side_file_data) pending3
                     else (None, pending3))
              in (Inr (case equals_and_hashcode of
                         None \<Rightarrow> complete_field_body
                       | Some methods \<Rightarrow> complete_field_body @ methods),
                  add_to_importing_list imports_to_add pending4)))"

section \<open>Updating a file (utils/entity\_rel\_utils.py)\<close>

text \<open>
  \<open>add_imports_to_file_tree\<close> and \<open>get_entity_field_insert_byte\<close> of the syntax-tree
  module are not in the sources; \<open>update_buffer\<close> and the relationship commands take
  them as the parameters \<open>add_imports\<close> (the tree and the pending imports to the merged
  tree and the imports still pending) and \<open>insert_byte_of\<close> (the insertion offset of a
  tree, if it has one). Either may raise.
\<close>

type_synonym add_imports_fn = "Tree \<Rightarrow> string list \<Rightarrow> (error + Tree) \<times> string list"

type_synonym insert_byte_fn = "Tree \<Rightarrow> error + int option"

definition update_buffer ::
  "(string \<Rightarrow> Tree) \<Rightarrow> add_imports_fn \<Rightarrow> insert_byte_fn \<Rightarrow> Tree \<Rightarrow> string \<Rightarrow> string \<Rightarrow> state \<Rightarrow>
   (error + unit) \<times> state" where
  "update_buffer parse add_imports insert_byte_of buffer_tree buffer_path template st =
     (case add_imports buffer_tree (importing_list st) of
        (Inl e, pending) \<Rightarrow> (Inl e, st\<lparr>importing_list := pending\<rparr>)
      | (Inr updated_buffer_tree, pending) \<Rightarrow>
          (let st1 = st\<lparr>importing_list := pending\<rparr>
           in case insert_byte_of updated_buffer_tree of
                Inl e \<Rightarrow> (Inl e, st1)
              | Inr insert_byte \<Rightarrow>
                  if insert_byte = None \<or> insert_byte = Some 0
                  then (Inl (ValueError ''Unable to get field insert position''), st1)
                  else (case insert_code_at_position parse (files st1) template
                               (the insert_byte) updated_buffer_tree of
                          Inl e \<Rightarrow> (Inl e, st1)
                        | Inr spliced \<Rightarrow>
                            treesitter_utils_update_buffer spliced buffer_path True False False
                              st1)))"


definition create_many_to_many_relationship_field ::
  "(string \<Rightarrow> Tree) \<Rightarrow> add_imports_fn \<Rightarrow> insert_byte_fn \<Rightarrow> JavaFileData \<Rightarrow> JavaFileData \<Rightarrow>
   CreateManyToManyRelArgs \<Rightarrow> state \<Rightarrow> (error + unit) \<times> state" where
  "create_many_to_many_relationship_field parse add_imports insert_byte_of owning_side_file_data
       inverse_side_file_data args st =
     (case generate_many_to_many_field_template owning_side_file_data inverse_side_file_data
             (PERSIST \<in> mtm_owning_side_cascades_enum args)
             (MERGE \<in> mtm_owning_side_cascades_enum args)
             (REFRESH \<in> mtm_owning_side_cascades_enum args)
             (DETACH \<in> mtm_owning_side_cascades_enum args)
             False True (importing_list st) of
        (Inl e, pending) \<Rightarrow> (Inl e, st\<lparr>importing_list := pending\<rparr>)
      | (Inr field_template, pending) \<Rightarrow>
          (case update_buffer parse add_imports insert_byte_of (tree owning_side_file_data)
                  (path owning_side_file_data) field_template
                  (st\<lparr>importing_list := pending\<rparr>) of
             (Inl e, st1) \<Rightarrow> (Inl e, st1)
           | (Inr u, st1) \<Rightarrow>
               if mtm_mapping_type_enum args \<noteq> UNIDIRECTIONAL_JOIN_COLUMN
               then (case generate_many_to_many_field_template owning_side_file_data
                            inverse_side_file_data
                            (PERSIST \<in> mtm_inverse_side_cascades_enum args)
                            (MERGE \<in> mtm_inverse_side_cascades_enum args)
                            (REFRESH \<in> mtm_inverse_side_cascades_enum args)
                            (DETACH \<in> mtm_inverse_side_cascades_enum args)
                            (EQUALS_HASHCODE \<in> mtm_inverse_side_other_enum args)
                            False (importing_list st1) of
                       (Inl e, pending1) \<Rightarrow> (Inl e, st1\<lparr>importing_list := pending1\<rparr>)
                     | (Inr inverse_template, pending1) \<Rightarrow>
                         update_buffer parse add_imports insert_byte_of
                           (tree inverse_side_file_data) (path inverse_side_file_data)
                           inverse_template (st1\<lparr>importing_list := pending1\<rparr>))
               else (Inr (), st1)))"

section \<open>The cascade rule in the specification's words\<close>

fun cascade_flag_name :: "CascadeType \<Rightarrow> string" where
  "cascade_flag_name PERSIST = ''PERSIST''"
| "cascade_flag_name MERGE = ''MERGE''"
| "cascade_flag_name REMOVE = ''REMOVE''"
| "cascade_flag_name REFRESH = ''REFRESH''"
| "cascade_flag_name DETACH = ''DETACH''"

definition flags_in_order :: "CascadeType set \<Rightarrow> CascadeType list" where
  "flags_in_order S = filter (\<lambda>c. c \<in> S) [PERSIST, MERGE, REMOVE, REFRESH, DETACH]"

definition cascade_spec :: "CascadeType set \<Rightarrow> string option" where
  "cascade_spec S =
     (if card S = 5 then Some ''cascade = CascadeType.ALL''
      else if card S = 1
      then Some (''cascade = CascadeType.'' @ cascade_flag_name (hd (flags_in_order S)))
      else if card S = 0 then None
      else Some (''cascade = {'' @
                 join '', '' (map (\<lambda>c. ''CascadeType.'' @ cascade_flag_name c) (flags_in_order S)) @
                 ''}''))"

section \<open>Sample inputs\<close>

text \<open>
  Stand-ins for the parts that are parameters, used where a theorem is applied to a
  concrete input: a parser that keeps the text and builds no structure, an import merge
  that leaves the tree alone, and locators that find no offset, offset 0, or the offset
  just after the first opening brace.
\<close>

definition plain_parse :: "string \<Rightarrow> Tree" where
  "plain_parse b = \<lparr>root_node = Node ''program'' None (Some b) []\<rparr>"

definition keep_imports :: add_imports_fn where
  "keep_imports t pending = (Inr t, pending)"

definition no_insert_byte :: insert_byte_fn where
  "no_insert_byte t = Inr None"



definition empty_state :: state where
  "empty_state = \<lparr>files = Map.empty, nvim_commands = [], importing_list = []\<rparr>"

text \<open>The files and the configuration of the end-to-end scenario.\<close>

definition order_file :: JavaFileData where
  "order_file =
     \<lparr>file_name = ''Order'', package_path = ''com.example.orders'', path = ''Order.java'',
      tree = plain_parse ''public class Order {}'', is_jpa_entity = True\<rparr>"

definition customer_file :: JavaFileData where
  "customer_file =
     \<lparr>file_name = ''Customer'', package_path = ''com.example.customers'',
      path = ''Customer.java'', tree = plain_parse ''public class Customer {}'',
      is_jpa_entity = True\<rparr>"

definition scenario_args :: CreateManyToOneRelArgs where
  "scenario_args =
     \<lparr>fetch_type_enum = EAGER, collection_type_enum = LIST,
      mapping_type_enum = BIDIRECTIONAL_JOIN_COLUMN,
      owning_side_cascades_enum = {PERSIST, MERGE}, inverse_side_cascades_enum = {},
      owning_side_other_enum = {MANDATORY}, inverse_side_other_enum = {}\<rparr>"

text \<open>The two fragments that the code generates in the scenario, and the imports pending
  after each.\<close>

definition scenario_owning_fragment :: string where
  \<open>scenario_owning_fragment =
     [CHR 0x0A, CHR 0x09] @
     ''@ManyToOne(optional = false, fetch = FetchType.EAGER, cascade = {CascadeType.PERSIST, CascadeType.MERGE})'' @
     [CHR 0x0A, CHR 0x09] @
     ''@JoinColumn(name = "customer_id", nullable = false, unique = false)'' @
     [CHR 0x0A, CHR 0x09] @ ''private Customer customer;'' @ [CHR 0x0A]\<close>

definition scenario_inverse_fragment :: string where
  \<open>scenario_inverse_fragment =
     [CHR 0x0A, CHR 0x09] @ ''@OneToMany(mappedBy = "customer", orphanRemoval = false)'' @
     [CHR 0x0A, CHR 0x09] @ ''private List<Order> orders = new ArrayList<>();'' @ [CHR 0x0A]\<close>

definition scenario_owning_imports :: "string list" where
  "scenario_owning_imports =
     [''jakarta.persistence.CascadeType'', ''jakarta.persistence.FetchType'',
      ''jakarta.persistence.ManyToOne'', ''jakarta.persistence.JoinColumn'',
      ''com.example.customers.Customer'']"

definition scenario_all_imports :: "string list" where
  "scenario_all_imports =
     scenario_owning_imports @
     [''jakarta.persistence.OneToMany'', ''java.util.List'', ''java.util.ArrayList'',
      ''com.example.orders.Order'']"










section \<open>Properties of the name derivation\<close>

lemma sub_upper_boundaries_interior:
  "str_lower (sub_upper_boundaries (Suc p) cs) =
     concat (map (\<lambda>x. if is_upper_A_Z x then [CHR ''_'', lower_char x] else [lower_char x]) cs)"
  by (induction cs arbitrary: p)
     (simp_all add: str_lower_def lower_char_def is_upper_A_Z_def is_upper_latin1_def)

lemma endswith_suffix: "endswith s suf = suffix suf s"
proof
  assume "endswith s suf"
  then have "s = take (length s - length suf) s @ suf"
    by (metis append_take_drop_id endswith_def)
  then show "suffix suf s" by (metis suffixI)
next
  assume "suffix suf s"
  then show "endswith s suf" by (auto simp: endswith_def suffix_def)
qed

lemma endswith_snoc1: "endswith (w @ [c]) [d] \<longleftrightarrow> c = d"
  by (simp add: endswith_def)

lemma endswith_snoc2_1: "endswith (w @ [b, c]) [d] \<longleftrightarrow> c = d"
  using endswith_snoc1 [of "w @ [b]" c d] by simp

lemma endswith_snoc2_2: "endswith (w @ [b, c]) [d, e] \<longleftrightarrow> b = d \<and> c = e"
  by (simp add: endswith_def)

lemma endswith_snoc1_2: "endswith (w @ [c]) [d, e] \<Longrightarrow> c = e"
  using snoc_suffix_snoc [of "[d]" e w c] by (simp add: endswith_suffix)

lemma py_slice_to_minus1: "py_slice_to (w @ [c]) (- 1) = w"
  by (simp add: py_slice_to_def)

lemma py_slice_to_minus2: "py_slice_to (w @ [b, c]) (- 2) = w"
  by (simp add: py_slice_to_def)

lemma snake_Customer: "convert_to_snake_case ''Customer'' = ''customer''"
  by (simp add: convert_to_snake_case_def generate_snaked_field_name_def str_lower_def
      lower_char_def is_upper_A_Z_def is_upper_latin1_def)

lemma field_name_Customer: "generate_field_name ''Customer'' False = Inr ''customer''"
  by (simp add: generate_field_name_def py_index_def py_slice_from_def str_lower_def
      lower_char_def is_upper_A_Z_def is_upper_latin1_def)

lemma field_name_Order_plural: "generate_field_name ''Order'' True = Inr ''orders''"
  by (simp add: generate_field_name_def pluralize_def endswith_any_def endswith_def
      py_index_def py_slice_from_def str_lower_def lower_char_def is_upper_A_Z_def
      is_upper_latin1_def)

text \<open>
  Claim C7, as amended. The test for a final \<open>f\<close> comes before the test for a final
  \<open>fe\<close>, but a word that ends in \<open>fe\<close> ends in \<open>e\<close> and fails the \<open>f\<close> test: its plural
  comes from the \<open>fe\<close> branch, which drops the last two characters and appends \<open>ves\<close>.
  A word that ends in \<open>f\<close> loses its last character and gains \<open>ves\<close>.
\<close>

theorem pluralize_fe_branch:
  "pluralize (w @ ''fe'') = Inr (w @ ''ves'') \<and> pluralize (w @ ''f'') = Inr (w @ ''ves'')"
proof -
  have "pluralize (w @ ''fe'') = Inr (w @ ''ves'')"
    unfolding pluralize_def endswith_any_def
    by (simp add: endswith_snoc2_1 endswith_snoc2_2 py_slice_to_minus2 Let_def)
  moreover have "pluralize (w @ ''f'') = Inr (w @ ''ves'')"
    unfolding pluralize_def endswith_any_def
    by (auto simp add: endswith_snoc1 py_slice_to_minus1 Let_def dest: endswith_snoc1_2)
  ultimately show ?thesis by simp
qed

text \<open>
  Claim C7, as stated, fails: had the \<open>f\<close> branch produced the plural of \<open>knife\<close>, it
  would be \<open>knifves\<close> (the last character dropped, \<open>ves\<close> appended); the code returns
  \<open>knives\<close>.
\<close>

theorem pluralize_knife_counterexample:
  "pluralize ''knife'' = Inr ''knives'' \<and>
   pluralize ''knife'' \<noteq> Inr (py_slice_to ''knife'' (- 1) @ ''ves'')"
  by (simp add: pluralize_def endswith_any_def endswith_def py_slice_to_def)

text \<open>
  Claim C8, as amended. For every input string, snake-case derivation puts an underscore
  before every letter of A to Z that is not the first character, each letter of a run
  included, and before no other character, and lower-cases the whole result; a capital
  letter outside A to Z is lower-cased and gets no underscore. \<open>UserProfile\<close> becomes
  \<open>user_profile\<close> and \<open>ID\<close> becomes \<open>i_d\<close>.
\<close>

theorem generate_snaked_field_name_spec:
  "generate_snaked_field_name s = snake_case_spec s \<and>
   generate_snaked_field_name ''UserProfile'' = ''user_profile'' \<and>
   generate_snaked_field_name ''ID'' = ''i_d''"
proof -
  have "generate_snaked_field_name s = snake_case_spec s"
  proof (cases s)
    case Nil
    then show ?thesis
      by (simp add: generate_snaked_field_name_def snake_case_spec_def str_lower_def)
  next
    case (Cons c cs)
    have "str_lower (sub_upper_boundaries 0 (c # cs)) =
            lower_char c # str_lower (sub_upper_boundaries (Suc 0) cs)"
      by (simp add: str_lower_def)
    with Cons show ?thesis
      by (simp add: generate_snaked_field_name_def snake_case_spec_def
          sub_upper_boundaries_interior)
  qed
  moreover have "generate_snaked_field_name ''UserProfile'' = ''user_profile''"
    by (simp add: generate_snaked_field_name_def str_lower_def lower_char_def is_upper_A_Z_def
        is_upper_latin1_def)
  moreover have "generate_snaked_field_name ''ID'' = ''i_d''"
    by (simp add: generate_snaked_field_name_def str_lower_def lower_char_def is_upper_A_Z_def
        is_upper_latin1_def)
  ultimately show ?thesis by simp
qed

text \<open>
  Claim C8, as stated, fails on an upper-case letter outside A to Z: in \<open>a\<close>, \<open>E\<close> with an
  acute accent (U+00C9), \<open>B\<close> the accented capital is an interior upper-case letter, yet
  the pattern \<open>[A-Z]\<close> does not match it; the result is \<open>a\<close>, the accented letter in
  lower case (U+00E9), an underscore, \<open>b\<close>, with no underscore before the accented
  letter.
\<close>

theorem generate_snaked_field_name_accent_counterexample:
  "generate_snaked_field_name [CHR ''a'', CHR 0xC9, CHR ''B''] =
     [CHR ''a'', CHR 0xE9, CHR ''_'', CHR ''b''] \<and>
   generate_snaked_field_name [CHR ''a'', CHR 0xC9, CHR ''B''] \<noteq>
     [CHR ''a'', CHR ''_'', CHR 0xE9, CHR ''_'', CHR ''b'']"
  by (simp add: generate_snaked_field_name_def str_lower_def lower_char_def is_upper_A_Z_def
      is_upper_latin1_def)

section \<open>Properties of the cascade composition\<close>

lemma set_flags_in_order: "set (flags_in_order S) = S"
proof (rule set_eqI)
  fix x show "x \<in> set (flags_in_order S) \<longleftrightarrow> x \<in> S"
    by (cases x) (auto simp: flags_in_order_def)
qed

lemma card_flags_in_order: "card S = length (flags_in_order S)"
proof -
  have "distinct (flags_in_order S)" by (simp add: flags_in_order_def)
  then have "card (set (flags_in_order S)) = length (flags_in_order S)"
    by (rule distinct_card)
  then show ?thesis by (simp add: set_flags_in_order)
qed

lemma fst_process_cascades_params:
  "fst (process_cascades_params p m r f d pending) =
     (let cascades = cascades_list p m r f d
      in if length cascades = 5 then Some ''cascade = CascadeType.ALL''
         else if length cascades = 1 then Some (''cascade = CascadeType.'' @ cascades ! 0)
         else if length cascades = 0 then None
         else Some (''cascade = {'' @ join '', '' (map (\<lambda>c. ''CascadeType.'' @ c) cascades) @ ''}''))"
  by (simp add: process_cascades_params_def Let_def)

lemma process_cascades_params_eq_spec:
  "fst (process_cascades_params (PERSIST \<in> S) (MERGE \<in> S) (REMOVE \<in> S) (REFRESH \<in> S)
          (DETACH \<in> S) pending) = cascade_spec S"
  unfolding cascade_spec_def card_flags_in_order fst_process_cascades_params
  by (cases "PERSIST \<in> S"; cases "MERGE \<in> S"; cases "REMOVE \<in> S"; cases "REFRESH \<in> S";
      cases "DETACH \<in> S"; simp add: flags_in_order_def cascades_list_def)

lemma cascade_spec_all: "cascade_spec S = Some ''cascade = CascadeType.ALL'' \<longleftrightarrow> card S = 5"
  unfolding cascade_spec_def card_flags_in_order
  by (cases "PERSIST \<in> S"; cases "MERGE \<in> S"; cases "REMOVE \<in> S"; cases "REFRESH \<in> S";
      cases "DETACH \<in> S"; simp add: flags_in_order_def)

lemma cascade_spec_none: "cascade_spec S = None \<longleftrightarrow> card S = 0"
  by (simp add: cascade_spec_def)

lemma cascade_flag_name_cases:
  "(\<exists>c. P (cascade_flag_name c)) \<longleftrightarrow>
     P ''PERSIST'' \<or> P ''MERGE'' \<or> P ''REMOVE'' \<or> P ''REFRESH'' \<or> P ''DETACH''"
proof
  assume "\<exists>c. P (cascade_flag_name c)"
  then obtain c where "P (cascade_flag_name c)" ..
  then show "P ''PERSIST'' \<or> P ''MERGE'' \<or> P ''REMOVE'' \<or> P ''REFRESH'' \<or> P ''DETACH''"
    by (cases c) simp_all
next
  assume "P ''PERSIST'' \<or> P ''MERGE'' \<or> P ''REMOVE'' \<or> P ''REFRESH'' \<or> P ''DETACH''"
  then show "\<exists>c. P (cascade_flag_name c)"
    by (metis cascade_flag_name.simps)
qed

lemma cascade_spec_single:
  "(\<exists>c. cascade_spec S = Some (''cascade = CascadeType.'' @ cascade_flag_name c)) \<longleftrightarrow>
     card S = 1"
  unfolding cascade_flag_name_cases [of "\<lambda>n. cascade_spec S = Some (''cascade = CascadeType.'' @ n)"]
  unfolding cascade_spec_def card_flags_in_order
  by (cases "PERSIST \<in> S"; cases "MERGE \<in> S"; cases "REMOVE \<in> S"; cases "REFRESH \<in> S";
      cases "DETACH \<in> S"; simp add: flags_in_order_def)

lemma cascade_spec_singleton:
  "cascade_spec {c} = Some (''cascade = CascadeType.'' @ cascade_flag_name c)"
  by (cases c) (simp_all add: cascade_spec_def flags_in_order_def)

lemma cascade_spec_names_member:
  "(\<exists>c. S = {c} \<and> cascade_spec S = Some (''cascade = CascadeType.'' @ cascade_flag_name c)) \<longleftrightarrow>
     card S = 1"
proof
  assume "\<exists>c. S = {c} \<and> cascade_spec S = Some (''cascade = CascadeType.'' @ cascade_flag_name c)"
  then show "card S = 1" by auto
next
  assume "card S = 1"
  then obtain c where "S = {c}" by (rule card_1_singletonE)
  then show "\<exists>c. S = {c} \<and>
    cascade_spec S = Some (''cascade = CascadeType.'' @ cascade_flag_name c)"
    by (auto simp: cascade_spec_singleton)
qed

text \<open>
  Claim C2. For every set \<open>S\<close> of cascade flags, read by the callers as five membership
  tests, the cascade parameter is \<open>cascade = CascadeType.ALL\<close> exactly when \<open>S\<close> has five
  members; it is \<open>cascade = CascadeType.\<close> followed by a flag name, without braces,
  exactly when \<open>S\<close> has one member, and the flag named is that member; it is absent
  exactly when \<open>S\<close> is empty; and otherwise it is the brace-delimited, comma-joined
  list of the members of \<open>S\<close> in the order PERSIST, MERGE, REMOVE, REFRESH, DETACH
  (\<open>cascade_spec\<close> states the four cases).
\<close>

theorem process_cascades_params_cases:
  "fst (process_cascades_params (PERSIST \<in> S) (MERGE \<in> S) (REMOVE \<in> S) (REFRESH \<in> S)
          (DETACH \<in> S) pending) = cascade_spec S \<and>
   (fst (process_cascades_params (PERSIST \<in> S) (MERGE \<in> S) (REMOVE \<in> S) (REFRESH \<in> S)
           (DETACH \<in> S) pending) = Some ''cascade = CascadeType.ALL'' \<longleftrightarrow> card S = 5) \<and>
   ((\<exists>c. fst (process_cascades_params (PERSIST \<in> S) (MERGE \<in> S) (REMOVE \<in> S) (REFRESH \<in> S)
                (DETACH \<in> S) pending) =
          Some (''cascade = CascadeType.'' @ cascade_flag_name c)) \<longleftrightarrow> card S = 1) \<and>
   ((\<exists>c. S = {c} \<and>
          fst (process_cascades_params (PERSIST \<in> S) (MERGE \<in> S) (REMOVE \<in> S) (REFRESH \<in> S)
                (DETACH \<in> S) pending) =
          Some (''cascade = CascadeType.'' @ cascade_flag_name c)) \<longleftrightarrow> card S = 1) \<and>
   (fst (process_cascades_params (PERSIST \<in> S) (MERGE \<in> S) (REMOVE \<in> S) (REFRESH \<in> S)
           (DETACH \<in> S) pending) = None \<longleftrightarrow> card S = 0)"
  unfolding process_cascades_params_eq_spec
  using cascade_spec_all [of S] cascade_spec_single [of S] cascade_spec_names_member [of S]
    cascade_spec_none [of S]
  by blast

section \<open>Properties of the many-to-many annotation\<close>

lemma lower_char_not_upper: "\<not> is_upper_A_Z (lower_char c)"
  by (cases c) (auto simp: lower_char_def is_upper_A_Z_def is_upper_latin1_def less_eq_char_def)

lemma str_lower_no_upper: "is_upper_A_Z x \<Longrightarrow> x \<notin> set (str_lower s)"
  using lower_char_not_upper by (auto simp: str_lower_def)

lemma set_join_subset: "set (join sep xs) \<subseteq> set sep \<union> \<Union> (set ` set xs)"
  by (induction sep xs rule: join.induct) auto

lemma many_to_many_cascade_chars:
  "fst (process_cascades_params p m False f d pending) = Some c \<Longrightarrow>
     CHR ''V'' \<notin> set c \<and> CHR ''L'' \<notin> set c \<and> c \<noteq> []"
  unfolding fst_process_cascades_params
  by (cases p; cases m; cases f; cases d) (auto simp: cascades_list_def)

lemma mapped_by_param_chars:
  \<open>CHR ''V'' \<notin> set (fst (process_extra_params None None None None None None (Some m) pending)) \<and>
   CHR ''L'' \<notin> set (fst (process_extra_params None None None None None None (Some m) pending))\<close>
  by (simp add: process_extra_params_def str_lower_no_upper is_upper_A_Z_def)

lemma annotation_with_params_chars:
  assumes "x \<notin> set body" "\<forall>p \<in> set params. x \<notin> set p"
    "\<forall>c. cascade_param = Some c \<longrightarrow> x \<notin> set c"
    "x \<notin> set ''(, )''"
  shows "x \<notin> set (annotation_with_params body params cascade_param)"
proof -
  have "x \<notin> set (join '', '' ps)" if "\<forall>p \<in> set ps. x \<notin> set p" for ps
    using set_join_subset [of "'', ''" ps] that assms(4) by auto
  then show ?thesis
    using assms by (auto simp: annotation_with_params_def Let_def split: option.splits)
qed

lemma many_to_many_body_chars:
  assumes x: "x = CHR ''V'' \<or> x = CHR ''L''"
  shows "x \<notin> set (fst (generate_many_to_many_annotation_body p m f d mapped_by pending))"
proof -
  obtain cp pending1 where cp: "process_cascades_params p m False f d pending = (cp, pending1)"
    by (cases "process_cascades_params p m False f d pending")
  have cpc: "\<forall>c. cp = Some c \<longrightarrow> x \<notin> set c"
    using many_to_many_cascade_chars [of p m f d pending] cp x by auto
  have body: "x \<notin> set ''@ManyToMany''" and punct: "x \<notin> set ''(, )''"
    using x by auto
  show ?thesis
  proof (cases mapped_by)
    case None
    then have "fst (generate_many_to_many_annotation_body p m f d mapped_by pending) =
                 annotation_with_params ''@ManyToMany'' [] cp"
      using cp by (simp add: generate_many_to_many_annotation_body_def)
    moreover have "x \<notin> set (annotation_with_params ''@ManyToMany'' [] cp)"
      using body cpc punct by (intro annotation_with_params_chars) simp_all
    ultimately show ?thesis by simp
  next
    case (Some mb)
    obtain ep pending2 where ep:
      "process_extra_params None None None None None None (Some mb) pending1 = (ep, pending2)"
      by (cases "process_extra_params None None None None None None (Some mb) pending1")
    have epc: "x \<notin> set ep"
      using mapped_by_param_chars [of mb pending1] ep x by auto
    have "fst (generate_many_to_many_annotation_body p m f d mapped_by pending) =
            annotation_with_params ''@ManyToMany'' [ep] cp"
      using cp ep Some by (simp add: generate_many_to_many_annotation_body_def)
    moreover have "x \<notin> set (annotation_with_params ''@ManyToMany'' [ep] cp)"
      using body cpc punct epc by (intro annotation_with_params_chars) simp_all
    ultimately show ?thesis by simp
  qed
qed

lemma many_to_many_template_starts_with_annotation:
  "(\<exists>e. fst (generate_many_to_many_field_template owning_side_file_data inverse_side_file_data
             p m f d equals_hashcode owning_side pending) = Inl e) \<or>
   (\<exists>rest. fst (generate_many_to_many_field_template owning_side_file_data
                inverse_side_file_data p m f d equals_hashcode owning_side pending) =
            Inr ([CHR 0x0A, CHR 0x09] @
                 fst (generate_many_to_many_annotation_body p m f d
                        (if \<not> owning_side then Some (file_name inverse_side_file_data) else None)
                        pending) @
                 rest))"
  unfolding generate_many_to_many_field_template_def
  by (auto simp: Let_def split: prod.splits sum.splits option.splits)

lemma create_many_to_many_ignores_remove:
  "create_many_to_many_relationship_field parse add_imports insert_byte_of owning_side_file_data
     inverse_side_file_data
     (args\<lparr>mtm_owning_side_cascades_enum := insert REMOVE (mtm_owning_side_cascades_enum args),
            mtm_inverse_side_cascades_enum :=
              insert REMOVE (mtm_inverse_side_cascades_enum args)\<rparr>) st =
   create_many_to_many_relationship_field parse add_imports insert_byte_of owning_side_file_data
     inverse_side_file_data args st"
  by (simp add: create_many_to_many_relationship_field_def
      cong: prod.case_cong sum.case_cong if_cong)

text \<open>
  Claim C9. Whatever cascade set \<open>S\<close> the caller holds for a side, REMOVE included, and
  whether the side carries \<open>mappedBy\<close> (inverse) or not (owning), the \<open>@ManyToMany\<close>
  annotation contains neither \<open>CascadeType.REMOVE\<close> nor \<open>CascadeType.ALL\<close>: the builder
  takes the PERSIST, MERGE, REFRESH and DETACH flags only and composes the cascades with
  \<open>False\<close> for REMOVE, so that the cascade parameter is the one of \<open>S\<close> without REMOVE.
  The fragment generated for either side of a many-to-many creation, unless its
  generation raises, opens with that annotation, and the creation as a whole does the
  same whether or not REMOVE is in the caller's cascade sets.
\<close>

theorem many_to_many_annotation_never_remove_nor_all:
  "\<not> sublist ''CascadeType.REMOVE''
       (fst (generate_many_to_many_annotation_body (PERSIST \<in> S) (MERGE \<in> S) (REFRESH \<in> S)
               (DETACH \<in> S) mapped_by pending)) \<and>
   \<not> sublist ''CascadeType.ALL''
       (fst (generate_many_to_many_annotation_body (PERSIST \<in> S) (MERGE \<in> S) (REFRESH \<in> S)
               (DETACH \<in> S) mapped_by pending)) \<and>
   fst (process_cascades_params (PERSIST \<in> S) (MERGE \<in> S) False (REFRESH \<in> S) (DETACH \<in> S)
          pending) = cascade_spec (S - {REMOVE}) \<and>
   cascade_spec (S - {REMOVE}) \<noteq> Some ''cascade = CascadeType.ALL'' \<and>
   ((\<exists>e. fst (generate_many_to_many_field_template owning_side_file_data
               inverse_side_file_data (PERSIST \<in> S) (MERGE \<in> S) (REFRESH \<in> S) (DETACH \<in> S)
               equals_hashcode owning_side pending) = Inl e) \<or>
    (\<exists>rest. fst (generate_many_to_many_field_template owning_side_file_data
                  inverse_side_file_data (PERSIST \<in> S) (MERGE \<in> S) (REFRESH \<in> S)
                  (DETACH \<in> S) equals_hashcode owning_side pending) =
             Inr ([CHR 0x0A, CHR 0x09] @
                  fst (generate_many_to_many_annotation_body (PERSIST \<in> S) (MERGE \<in> S)
                         (REFRESH \<in> S) (DETACH \<in> S)
                         (if \<not> owning_side then Some (file_name inverse_side_file_data)
                          else None)
                         pending) @
                  rest))) \<and>
   create_many_to_many_relationship_field parse add_imports insert_byte_of owning_side_file_data
     inverse_side_file_data
     (args\<lparr>mtm_owning_side_cascades_enum := insert REMOVE (mtm_owning_side_cascades_enum args),
            mtm_inverse_side_cascades_enum :=
              insert REMOVE (mtm_inverse_side_cascades_enum args)\<rparr>) st =
   create_many_to_many_relationship_field parse add_imports insert_byte_of owning_side_file_data
     inverse_side_file_data args st"
proof -
  let ?b = "fst (generate_many_to_many_annotation_body (PERSIST \<in> S) (MERGE \<in> S) (REFRESH \<in> S)
                   (DETACH \<in> S) mapped_by pending)"
  have "\<not> sublist ''CascadeType.REMOVE'' ?b"
  proof
    assume "sublist ''CascadeType.REMOVE'' ?b"
    then have "set ''CascadeType.REMOVE'' \<subseteq> set ?b" by (rule set_mono_sublist)
    then have "CHR ''V'' \<in> set ?b" by simp
    then show False using many_to_many_body_chars [of "CHR ''V''"] by blast
  qed
  moreover have "\<not> sublist ''CascadeType.ALL'' ?b"
  proof
    assume "sublist ''CascadeType.ALL'' ?b"
    then have "set ''CascadeType.ALL'' \<subseteq> set ?b" by (rule set_mono_sublist)
    then have "CHR ''L'' \<in> set ?b" by simp
    then show False using many_to_many_body_chars [of "CHR ''L''"] by blast
  qed
  moreover have "fst (process_cascades_params (PERSIST \<in> S) (MERGE \<in> S) False (REFRESH \<in> S)
                        (DETACH \<in> S) pending) = cascade_spec (S - {REMOVE})"
    using process_cascades_params_eq_spec [of "S - {REMOVE}" pending] by simp
  moreover have "cascade_spec (S - {REMOVE}) \<noteq> Some ''cascade = CascadeType.ALL''"
  proof -
    have "REMOVE \<notin> set (flags_in_order (S - {REMOVE}))"
      by (simp add: set_flags_in_order)
    then have "length (flags_in_order (S - {REMOVE})) \<noteq> 5"
      by (cases "PERSIST \<in> S"; cases "MERGE \<in> S"; cases "REFRESH \<in> S"; cases "DETACH \<in> S";
          simp add: flags_in_order_def)
    then show ?thesis
      using cascade_spec_all [of "S - {REMOVE}"] by (simp add: card_flags_in_order)
  qed
  moreover note many_to_many_template_starts_with_annotation
                  [of owning_side_file_data inverse_side_file_data "PERSIST \<in> S" "MERGE \<in> S"
                      "REFRESH \<in> S" "DETACH \<in> S" equals_hashcode owning_side pending]
  moreover note create_many_to_many_ignores_remove
                  [of parse add_imports insert_byte_of owning_side_file_data
                      inverse_side_file_data args st]
  ultimately show ?thesis by (intro conjI)
qed

section \<open>Properties of the identity-method generator\<close>










section \<open>Properties of the UTF-8 encoding\<close>


lemma split2:
  fixes a b :: nat
  assumes "b < 64"
  shows "(a * 64 + b) div 64 = a" "(a * 64 + b) mod 64 = b"
  using assms by simp_all

lemma split3:
  fixes a b c :: nat
  assumes "b < 64" "c < 64"
  shows "(a * 4096 + b * 64 + c) div 4096 = a"
    "(a * 4096 + b * 64 + c) div 64 mod 64 = b"
    "(a * 4096 + b * 64 + c) mod 64 = c"
proof -
  define x where "x = a * 4096 + b * 64 + c"
  define y where "y = a * 64 + b"
  have e: "x = y * 64 + c" by (simp add: x_def y_def)
  have d: "x div 64 = y"
    unfolding e using assms(2) by simp
  have "x div 64 mod 64 = b"
    unfolding d y_def using assms(1) by simp
  then show "(a * 4096 + b * 64 + c) div 64 mod 64 = b"
    unfolding x_def .
  have "x mod 64 = c"
    unfolding e using assms(2) by simp
  then show "(a * 4096 + b * 64 + c) mod 64 = c"
    unfolding x_def .
  have "x div 4096 = x div 64 div 64"
    by (simp add: div_mult2_eq [symmetric])
  also have "\<dots> = a" unfolding d y_def using assms(1) by simp
  finally show "(a * 4096 + b * 64 + c) div 4096 = a" unfolding x_def .
qed

lemma split4:
  fixes a b c d :: nat
  assumes "b < 64" "c < 64" "d < 64"
  shows "(a * 262144 + b * 4096 + c * 64 + d) div 262144 = a"
    "(a * 262144 + b * 4096 + c * 64 + d) div 4096 mod 64 = b"
    "(a * 262144 + b * 4096 + c * 64 + d) div 64 mod 64 = c"
    "(a * 262144 + b * 4096 + c * 64 + d) mod 64 = d"
proof -
  define x where "x = a * 262144 + b * 4096 + c * 64 + d"
  define y where "y = a * 4096 + b * 64 + c"
  have e: "x = y * 64 + d" by (simp add: x_def y_def)
  have d: "x div 64 = y"
    unfolding e using assms(3) by simp
  have "x mod 64 = d"
    unfolding e using assms(3) by simp
  then show "(a * 262144 + b * 4096 + c * 64 + d) mod 64 = d"
    unfolding x_def .
  have "x div 64 mod 64 = c"
    unfolding d y_def using assms(1,2) by (rule split3(3))
  then show "(a * 262144 + b * 4096 + c * 64 + d) div 64 mod 64 = c"
    unfolding x_def .
  have "x div 4096 = x div 64 div 64"
    by (simp add: div_mult2_eq [symmetric])
  then have d2: "x div 4096 = y div 64" unfolding d .
  have "x div 4096 mod 64 = b"
    unfolding d2 y_def using assms(1,2) by (rule split3(2))
  then show "(a * 262144 + b * 4096 + c * 64 + d) div 4096 mod 64 = b"
    unfolding x_def .
  have "x div 262144 = x div 64 div 4096"
    by (simp add: div_mult2_eq [symmetric])
  then have "x div 262144 = y div 4096" unfolding d .
  also have "\<dots> = a"
    unfolding y_def using assms(1,2) by (rule split3(1))
  finally show "(a * 262144 + b * 4096 + c * 64 + d) div 262144 = a"
    unfolding x_def .
qed

lemma decode2_bytes:
  assumes "decode2 n0 n1 = Some cp"
  shows "utf8_char cp = [char_of n0, char_of n1]" "is_scalar_value cp"
proof -
  define a b where "a = n0 - 0xC0" and "b = n1 - 0x80"
  from assms have n: "n0 = 0xC0 + a" "n1 = 0x80 + b" and r: "2 \<le> a" "a < 32" "b < 64"
    and cp: "cp = a * 64 + b"
    by (auto simp: decode2_def is_continuation_def a_def b_def split: if_splits)
  have bounds: "0x80 \<le> cp" "cp < 0x800"
    using cp r by linarith+
  have form: "utf8_char cp = [char_of (0xC0 + cp div 64), char_of (0x80 + cp mod 64)]"
    using bounds by (simp add: utf8_char_def)
  have parts: "cp div 64 = a" "cp mod 64 = b"
    unfolding cp using r(3) by (rule split2)+
  show "utf8_char cp = [char_of n0, char_of n1]"
    by (simp only: form parts n)
  show "is_scalar_value cp"
    using bounds by (simp add: is_scalar_value_def)
qed

lemma decode3_bytes:
  assumes "decode3 n0 n1 n2 = Some cp"
  shows "utf8_char cp = [char_of n0, char_of n1, char_of n2]" "is_scalar_value cp"
proof -
  define a b c where "a = n0 - 0xE0" and "b = n1 - 0x80" and "c = n2 - 0x80"
  from assms have n: "n0 = 0xE0 + a" "n1 = 0x80 + b" "n2 = 0x80 + c"
    and r: "a < 16" "b < 64" "c < 64"
    and low: "a = 0 \<longrightarrow> 32 \<le> b" and surrogate: "a = 13 \<longrightarrow> b < 32"
    and cp: "cp = a * 4096 + b * 64 + c"
    by (auto simp: decode3_def is_continuation_def a_def b_def c_def split: if_splits)
  have lower: "0x800 \<le> cp"
  proof (cases "a = 0")
    case True
    with low have "32 \<le> b" by simp
    then show ?thesis using cp by linarith
  next
    case False
    then have "1 \<le> a" by simp
    then show ?thesis using cp by linarith
  qed
  have upper: "cp < 0x10000"
    using cp r by linarith
  have form: "utf8_char cp =
          [char_of (0xE0 + cp div 4096), char_of (0x80 + cp div 64 mod 64),
           char_of (0x80 + cp mod 64)]"
    using lower upper by (simp add: utf8_char_def)
  have parts: "cp div 4096 = a" "cp div 64 mod 64 = b" "cp mod 64 = c"
    unfolding cp using r(2,3) by (rule split3)+
  show "utf8_char cp = [char_of n0, char_of n1, char_of n2]"
    by (simp only: form parts n)
  have "cp < 0xD800 \<or> 0xDFFF < cp"
  proof (cases "a < 13")
    case True
    then have "a \<le> 12" by simp
    then show ?thesis using cp r by linarith
  next
    case False
    show ?thesis
    proof (cases "a = 13")
      case True
      with surrogate have "b \<le> 31" by simp
      then show ?thesis using cp r True by linarith
    next
      case False
      with \<open>\<not> a < 13\<close> have "14 \<le> a" by simp
      then show ?thesis using cp by linarith
    qed
  qed
  then show "is_scalar_value cp"
    using upper by (auto simp: is_scalar_value_def)
qed

lemma decode4_bytes:
  assumes "decode4 n0 n1 n2 n3 = Some cp"
  shows "utf8_char cp = [char_of n0, char_of n1, char_of n2, char_of n3]" "is_scalar_value cp"
proof -
  define a b c d where "a = n0 - 0xF0" and "b = n1 - 0x80" and "c = n2 - 0x80"
    and "d = n3 - 0x80"
  from assms have n: "n0 = 0xF0 + a" "n1 = 0x80 + b" "n2 = 0x80 + c" "n3 = 0x80 + d"
    and r: "a < 5" "b < 64" "c < 64" "d < 64"
    and low: "a = 0 \<longrightarrow> 16 \<le> b" and high: "a = 4 \<longrightarrow> b < 16"
    and cp: "cp = a * 262144 + b * 4096 + c * 64 + d"
    by (auto simp: decode4_def is_continuation_def a_def b_def c_def d_def split: if_splits)
  have lower: "0x10000 \<le> cp"
  proof (cases "a = 0")
    case True
    with low have "16 \<le> b" by simp
    then show ?thesis using cp by linarith
  next
    case False
    then have "1 \<le> a" by simp
    then show ?thesis using cp by linarith
  qed
  have upper: "cp < 0x110000"
  proof (cases "a = 4")
    case True
    with high have "b \<le> 15" by simp
    then show ?thesis using cp r True by linarith
  next
    case False
    with r have "a \<le> 3" by simp
    then show ?thesis using cp r by linarith
  qed
  have form: "utf8_char cp =
          [char_of (0xF0 + cp div 262144), char_of (0x80 + cp div 4096 mod 64),
           char_of (0x80 + cp div 64 mod 64), char_of (0x80 + cp mod 64)]"
    using lower by (simp add: utf8_char_def)
  have parts: "cp div 262144 = a" "cp div 4096 mod 64 = b" "cp div 64 mod 64 = c"
    "cp mod 64 = d"
    unfolding cp using r(2,3,4) by (rule split4)+
  show "utf8_char cp = [char_of n0, char_of n1, char_of n2, char_of n3]"
    by (simp only: form parts n)
  show "is_scalar_value cp"
    using lower upper by (simp add: is_scalar_value_def)
qed

lemma bytes_decode_step:
  assumes "bytes_decode (b0 # bs) = Some s"
  shows "\<exists>cp k rest. s = cp # rest \<and> is_scalar_value cp \<and> 0 < k \<and> k \<le> length (b0 # bs) \<and>
           utf8_char cp = take k (b0 # bs) \<and> bytes_decode (drop k (b0 # bs)) = Some rest"
proof (cases "(of_char b0 :: nat) < 0x80")
  case True
  with assms obtain rest where "s = of_char b0 # rest" "bytes_decode bs = Some rest"
    by auto
  moreover have "is_scalar_value (of_char b0)" "utf8_char (of_char b0) = [b0]"
    using True by (simp_all add: is_scalar_value_def utf8_char_def)
  ultimately show ?thesis
    by (intro exI [of _ "of_char b0"] exI [of _ 1] exI [of _ rest]) simp
next
  case False
  with assms obtain b1 bs1 where bs: "bs = b1 # bs1"
    by (cases bs) auto
  show ?thesis
  proof (cases "decode2 (of_char b0) (of_char b1)")
    case (Some cp)
    with assms False bs obtain rest where "s = cp # rest" "bytes_decode bs1 = Some rest"
      by auto
    then show ?thesis
      using decode2_bytes [OF Some] bs
      by (intro exI [of _ cp] exI [of _ 2] exI [of _ rest]) simp
  next
    case no2: None
    with assms False bs obtain b2 bs2 where bs1: "bs1 = b2 # bs2"
      by (cases bs1) auto
    show ?thesis
    proof (cases "decode3 (of_char b0) (of_char b1) (of_char b2)")
      case (Some cp)
      with assms False bs bs1 no2 obtain rest where "s = cp # rest" "bytes_decode bs2 = Some rest"
        by auto
      then show ?thesis
        using decode3_bytes [OF Some] bs bs1
        by (intro exI [of _ cp] exI [of _ 3] exI [of _ rest]) simp
    next
      case no3: None
      with assms False bs bs1 no2 obtain b3 bs3 where bs2: "bs2 = b3 # bs3"
        by (cases bs2) auto
      from assms False bs bs1 bs2 no2 no3 obtain cp rest
        where four: "decode4 (of_char b0) (of_char b1) (of_char b2) (of_char b3) = Some cp"
          and "s = cp # rest" "bytes_decode bs3 = Some rest"
        by (auto split: option.splits)
      then show ?thesis
        using decode4_bytes [OF four] bs bs1 bs2
        by (intro exI [of _ cp] exI [of _ 4] exI [of _ rest]) simp
    qed
  qed
qed

lemma bytes_decode_sound:
  "bytes_decode bs = Some s \<Longrightarrow> list_all is_scalar_value s \<and> utf8_bytes s = bs"
proof (induction "length bs" arbitrary: bs s rule: less_induct)
  case less
  show ?case
  proof (cases bs)
    case Nil
    with less.prems show ?thesis by (simp add: utf8_bytes_def)
  next
    case (Cons b0 bs')
    with less.prems bytes_decode_step [of b0 bs' s]
    obtain cp k rest where s: "s = cp # rest" and cp: "is_scalar_value cp"
      and k: "0 < k" "k \<le> length bs" and bytes: "utf8_char cp = take k bs"
      and rest: "bytes_decode (drop k bs) = Some rest"
      by auto
    have "length (drop k bs) < length bs"
      using k Cons by simp
    from less.hyps [OF this rest]
    have "list_all is_scalar_value rest" "utf8_bytes rest = drop k bs"
      by simp_all
    then show ?thesis
      using s cp bytes by (simp add: utf8_bytes_def)
  qed
qed

lemma bytes_decode_encode: "bytes_decode bs = Some s \<Longrightarrow> str_encode s = Some bs"
  using bytes_decode_sound [of bs s] by (simp add: str_encode_def)

lemma utf8_bytes_append: "utf8_bytes (s @ r) = utf8_bytes s @ utf8_bytes r"
  by (simp add: utf8_bytes_def)

lemma bytes_decode_ascii: "is_ascii_text bs \<Longrightarrow> bytes_decode bs = Some (map of_char bs)"
  by (induction bs) (simp_all add: is_ascii_text_def)

lemma utf8_bytes_ascii: "is_ascii_text bs \<Longrightarrow> utf8_bytes (map of_char bs) = bs"
  by (induction bs) (simp_all add: is_ascii_text_def utf8_bytes_def utf8_char_def)

lemma scalar_ascii: "is_ascii_text bs \<Longrightarrow> list_all is_scalar_value (map of_char bs)"
  by (induction bs) (simp_all add: is_ascii_text_def is_scalar_value_def)

section \<open>Properties of splicing and of the single-file update\<close>



lemma insert_code_into_position_empty:
  assumes "\<not> truthy_text (node_text (root_node t))"
  shows "insert_code_into_position parse fs t code pos =
           Inl (ValueError ''Unable to convert root node's text to bytes'')"
  using assms by (simp add: insert_code_into_position_def)

lemma treesitter_utils_update_buffer_error:
  "treesitter_utils_update_buffer t p save fmt org st = (Inl e, st') \<Longrightarrow> st' = st"
  by (auto simp: treesitter_utils_update_buffer_def Let_def split: if_splits)


lemma update_buffer_no_offset:
  assumes "add_imports buffer_tree (importing_list st) = (Inr merged, pend)"
    and "insert_byte_of merged = Inr None"
  shows "update_buffer parse add_imports insert_byte_of buffer_tree buffer_path template st =
           (Inl (ValueError ''Unable to get field insert position''),
            st\<lparr>importing_list := pend\<rparr>)"
  using assms by (simp add: update_buffer_def Let_def)


lemma update_buffer_error_writes_nothing:
  assumes "update_buffer parse add_imports insert_byte_of buffer_tree buffer_path template st =
             (Inl e, st')"
  shows "files st' = files st \<and> nvim_commands st' = nvim_commands st"
  using assms
  by (auto simp: update_buffer_def Let_def
      split: prod.splits sum.splits if_splits dest!: treesitter_utils_update_buffer_error)

lemma update_buffer_success_steps:
  assumes "update_buffer parse add_imports insert_byte_of buffer_tree buffer_path template st =
             (Inr u, st')"
  shows "\<exists>merged pend off spliced.
           add_imports buffer_tree (importing_list st) = (Inr merged, pend) \<and>
           insert_byte_of merged = Inr (Some off) \<and> off \<noteq> 0 \<and>
           insert_code_into_position parse (files st) merged template off = Inr spliced \<and>
           truthy_text (node_text (root_node spliced)) \<and>
           st' = st\<lparr>importing_list := pend,
                    files := (files st)(buffer_path \<mapsto> the (node_text (root_node spliced))),
                    nvim_commands :=
                      nvim_commands st @ [''e '' @ buffer_path, ''w '' @ buffer_path]\<rparr>"
  using assms
  by (auto simp: update_buffer_def Let_def insert_code_at_position_def
      treesitter_utils_update_buffer_def
      split: prod.splits sum.splits if_splits)


lemma insert_code_into_position_utf8_text:
  assumes "node_text (root_node t) = Some X" and "X \<noteq> []"
    and "bytes_decode X = Some S" and "list_all is_scalar_value F"
  shows "insert_code_into_position_utf8 parse fs t F off =
           Inr (parse (utf8_bytes (py_slice_to S off) @ utf8_bytes F @
                       utf8_bytes (py_slice_from S off)))"
proof -
  have "list_all is_scalar_value S"
    using bytes_decode_sound [OF assms(3)] by simp
  then have "list_all is_scalar_value (py_slice_to S off)"
    "list_all is_scalar_value (py_slice_from S off)"
    by (auto simp: py_slice_to_def py_slice_from_def list_all_iff dest: in_set_takeD in_set_dropD)
  then have "str_encode (py_slice_to S off @ F @ py_slice_from S off) =
               Some (utf8_bytes (py_slice_to S off) @ utf8_bytes F @
                     utf8_bytes (py_slice_from S off))"
    using assms(4) by (simp add: str_encode_def utf8_bytes_append)
  then show ?thesis
    using assms(1-3)
    by (simp add: insert_code_into_position_utf8_def truthy_text_def convert_buffer_to_tree_def)
qed

lemma insert_code_into_position_utf8_ascii:
  assumes "node_text (root_node t) = Some X" and "is_ascii_text X" and "is_ascii_text A"
  shows "insert_code_into_position_utf8 parse fs t (map of_char A) off =
           insert_code_into_position parse fs t A off"
proof (cases "X = []")
  case True
  with assms(1) show ?thesis
    by (simp add: insert_code_into_position_utf8_def insert_code_into_position_def
        truthy_text_def)
next
  case False
  have slices: "is_ascii_text (py_slice_to X off)" "is_ascii_text (py_slice_from X off)"
    using assms(2)
    by (auto simp: is_ascii_text_def py_slice_to_def py_slice_from_def list_all_iff
        dest: in_set_takeD in_set_dropD)
  have maps: "py_slice_to (map of_char X) off = map of_char (py_slice_to X off)"
    "py_slice_from (map of_char X) off = map of_char (py_slice_from X off)" for off
    by (simp_all add: py_slice_to_def py_slice_from_def take_map drop_map)
  have "insert_code_into_position_utf8 parse fs t (map of_char A) off =
          Inr (parse (utf8_bytes (py_slice_to (map of_char X) off) @ utf8_bytes (map of_char A) @
                      utf8_bytes (py_slice_from (map of_char X) off)))"
    using assms(1) False bytes_decode_ascii [OF assms(2)] scalar_ascii [OF assms(3)]
    by (rule insert_code_into_position_utf8_text)
  also have "\<dots> = Inr (parse (py_slice_to X off @ A @ py_slice_from X off))"
    by (simp only: maps utf8_bytes_ascii [OF slices(1)] utf8_bytes_ascii [OF slices(2)]
        utf8_bytes_ascii [OF assms(3)])
  also have "\<dots> = insert_code_into_position parse fs t A off"
    using assms(1) False
    by (simp add: insert_code_into_position_def truthy_text_def convert_buffer_to_tree_def)
  finally show ?thesis .
qed






text \<open>
  Claim C4. In a single-file update the tree returned by the import merge is the one the
  insertion offset is looked up in and the one spliced, and the spliced tree is the one
  written. If no insertion offset is found the update raises and leaves the files and the
  editor untouched; so does every other failure of the update. A successful update has
  gone through all the steps: a non-zero offset was found on the merged tree, the
  fragment was spliced there, and the text of the spliced tree was written to the path
  and nowhere else. The tree passed in is a value and is not changed.
\<close>

theorem update_buffer_all_or_nothing:
  "(\<forall>merged pend.
      add_imports buffer_tree (importing_list st) = (Inr merged, pend) \<and>
      insert_byte_of merged = Inr None \<longrightarrow>
        update_buffer parse add_imports insert_byte_of buffer_tree buffer_path template st =
          (Inl (ValueError ''Unable to get field insert position''),
           st\<lparr>importing_list := pend\<rparr>) \<and>
        files (st\<lparr>importing_list := pend\<rparr>) = files st \<and>
        nvim_commands (st\<lparr>importing_list := pend\<rparr>) = nvim_commands st) \<and>
   (\<forall>e st'.
      update_buffer parse add_imports insert_byte_of buffer_tree buffer_path template st =
        (Inl e, st') \<longrightarrow>
        files st' = files st \<and> nvim_commands st' = nvim_commands st) \<and>
   (\<forall>u st'.
      update_buffer parse add_imports insert_byte_of buffer_tree buffer_path template st =
        (Inr u, st') \<longrightarrow>
        (\<exists>merged pend off spliced.
           add_imports buffer_tree (importing_list st) = (Inr merged, pend) \<and>
           insert_byte_of merged = Inr (Some off) \<and> off \<noteq> 0 \<and>
           insert_code_into_position parse (files st) merged template off = Inr spliced \<and>
           truthy_text (node_text (root_node spliced)) \<and>
           st' = st\<lparr>importing_list := pend,
                    files := (files st)(buffer_path \<mapsto> the (node_text (root_node spliced))),
                    nvim_commands :=
                      nvim_commands st @ [''e '' @ buffer_path, ''w '' @ buffer_path]\<rparr>))"
proof (intro conjI allI impI)
  fix merged pend
  assume "add_imports buffer_tree (importing_list st) = (Inr merged, pend) \<and>
          insert_byte_of merged = Inr None"
  then have "add_imports buffer_tree (importing_list st) = (Inr merged, pend)"
    and "insert_byte_of merged = Inr None"
    by simp_all
  then show "update_buffer parse add_imports insert_byte_of buffer_tree buffer_path template st =
               (Inl (ValueError ''Unable to get field insert position''),
                st\<lparr>importing_list := pend\<rparr>)"
    by (rule update_buffer_no_offset)
  show "files (st\<lparr>importing_list := pend\<rparr>) = files st" by simp
  show "nvim_commands (st\<lparr>importing_list := pend\<rparr>) = nvim_commands st" by simp
next
  fix e st'
  assume "update_buffer parse add_imports insert_byte_of buffer_tree buffer_path template st =
            (Inl e, st')"
  then have "files st' = files st \<and> nvim_commands st' = nvim_commands st"
    by (rule update_buffer_error_writes_nothing)
  then show "files st' = files st" and "nvim_commands st' = nvim_commands st"
    by simp_all
next
  fix u st'
  assume "update_buffer parse add_imports insert_byte_of buffer_tree buffer_path template st =
            (Inr u, st')"
  then show
    "\<exists>merged pend off spliced.
       add_imports buffer_tree (importing_list st) = (Inr merged, pend) \<and>
       insert_byte_of merged = Inr (Some off) \<and> off \<noteq> 0 \<and>
       insert_code_into_position parse (files st) merged template off = Inr spliced \<and>
       truthy_text (node_text (root_node spliced)) \<and>
       st' = st\<lparr>importing_list := pend,
                files := (files st)(buffer_path \<mapsto> the (node_text (root_node spliced))),
                nvim_commands :=
                  nvim_commands st @ [''e '' @ buffer_path, ''w '' @ buffer_path]\<rparr>"
    by (rule update_buffer_success_steps)
qed

theorem update_buffer_all_or_nothing_witness:
  "keep_imports (tree order_file) (importing_list empty_state) = (Inr (tree order_file), []) \<and>
   no_insert_byte (tree order_file) = Inr None \<and>
   update_buffer plain_parse keep_imports no_insert_byte (tree order_file) ''Order.java''
       ''int x;'' empty_state =
     (Inl (ValueError ''Unable to get field insert position''), empty_state)"
proof -
  have merged: "keep_imports (tree order_file) (importing_list empty_state) =
                  (Inr (tree order_file), [])"
    by (simp add: keep_imports_def empty_state_def)
  have missing: "no_insert_byte (tree order_file) = Inr None"
    by (simp add: no_insert_byte_def)
  have "\<forall>merged pend.
          keep_imports (tree order_file) (importing_list empty_state) = (Inr merged, pend) \<and>
          no_insert_byte merged = Inr None \<longrightarrow>
            update_buffer plain_parse keep_imports no_insert_byte (tree order_file)
                ''Order.java'' ''int x;'' empty_state =
              (Inl (ValueError ''Unable to get field insert position''),
               empty_state\<lparr>importing_list := pend\<rparr>) \<and>
            files (empty_state\<lparr>importing_list := pend\<rparr>) = files empty_state \<and>
            nvim_commands (empty_state\<lparr>importing_list := pend\<rparr>) =
              nvim_commands empty_state"
    using update_buffer_all_or_nothing
            [where add_imports = keep_imports and buffer_tree = "tree order_file"
               and st = empty_state and insert_byte_of = no_insert_byte and parse = plain_parse
               and buffer_path = "''Order.java''" and template = "''int x;''"]
    by (rule conjunct1)
  then have "keep_imports (tree order_file) (importing_list empty_state) =
               (Inr (tree order_file), []) \<and>
             no_insert_byte (tree order_file) = Inr None \<longrightarrow>
               update_buffer plain_parse keep_imports no_insert_byte (tree order_file)
                   ''Order.java'' ''int x;'' empty_state =
                 (Inl (ValueError ''Unable to get field insert position''),
                  empty_state\<lparr>importing_list := []\<rparr>) \<and>
               files (empty_state\<lparr>importing_list := []\<rparr>) = files empty_state \<and>
               nvim_commands (empty_state\<lparr>importing_list := []\<rparr>) =
                 nvim_commands empty_state"
    by (rule allE [where x = "tree order_file"]) (erule allE [where x = "[]"])
  with merged missing
  have "update_buffer plain_parse keep_imports no_insert_byte (tree order_file)
            ''Order.java'' ''int x;'' empty_state =
          (Inl (ValueError ''Unable to get field insert position''),
           empty_state\<lparr>importing_list := []\<rparr>)"
    by (simp only:)
  moreover have "empty_state\<lparr>importing_list := []\<rparr> = empty_state"
    by (simp add: empty_state_def)
  ultimately show ?thesis using merged missing by simp
qed



section \<open>Properties of many-to-one creation\<close>

lemma scenario_flags:
  "fetch_type_enum scenario_args = EAGER"
  "collection_type_enum scenario_args = LIST"
  "mapping_type_enum scenario_args = BIDIRECTIONAL_JOIN_COLUMN"
  "PERSIST \<in> owning_side_cascades_enum scenario_args"
  "MERGE \<in> owning_side_cascades_enum scenario_args"
  "REMOVE \<notin> owning_side_cascades_enum scenario_args"
  "REFRESH \<notin> owning_side_cascades_enum scenario_args"
  "DETACH \<notin> owning_side_cascades_enum scenario_args"
  "MANDATORY \<in> owning_side_other_enum scenario_args"
  "UNIQUE \<notin> owning_side_other_enum scenario_args"
  "PERSIST \<notin> inverse_side_cascades_enum scenario_args"
  "MERGE \<notin> inverse_side_cascades_enum scenario_args"
  "REMOVE \<notin> inverse_side_cascades_enum scenario_args"
  "REFRESH \<notin> inverse_side_cascades_enum scenario_args"
  "DETACH \<notin> inverse_side_cascades_enum scenario_args"
  "ORPHAN_REMOVAL \<notin> inverse_side_other_enum scenario_args"
  by (simp_all add: scenario_args_def)

lemma scenario_many_to_one_annotation:
  "generate_many_to_one_annotation_body EAGER True True False False False True [] =
     (''@ManyToOne(optional = false, fetch = FetchType.EAGER, cascade = {CascadeType.PERSIST, CascadeType.MERGE})'',
      [''jakarta.persistence.CascadeType'', ''jakarta.persistence.FetchType'',
       ''jakarta.persistence.ManyToOne''])"
  by (simp add: generate_many_to_one_annotation_body_def process_cascades_params_def
      cascades_list_def process_extra_params_def annotation_with_params_def
      add_to_importing_list_def str_bool_def str_lower_def str_upper_def lower_char_def
      upper_char_def is_upper_A_Z_def is_lower_a_z_def)

lemma scenario_join_column:
  \<open>generate_join_column_body ''Customer'' True False
       [''jakarta.persistence.CascadeType'', ''jakarta.persistence.FetchType'',
        ''jakarta.persistence.ManyToOne''] =
     (''@JoinColumn(name = "customer_id", nullable = false, unique = false)'',
      [''jakarta.persistence.CascadeType'', ''jakarta.persistence.FetchType'',
       ''jakarta.persistence.ManyToOne'', ''jakarta.persistence.JoinColumn''])\<close>
  by (simp add: generate_join_column_body_def snake_Customer process_extra_params_def
      add_to_importing_list_def str_bool_def str_lower_def lower_char_def is_upper_A_Z_def
      is_upper_latin1_def)

lemma scenario_owning_field:
  "generate_field_body ''Customer'' False None pending =
     (Inr ''private Customer customer;'', pending)"
  by (simp add: generate_field_body_def field_name_Customer add_to_importing_list_def)

lemma scenario_owning_template:
  "generate_many_to_one_template customer_file EAGER True True False False False True False [] =
     (Inr scenario_owning_fragment, scenario_owning_imports)"
  by (simp add: generate_many_to_one_template_def customer_file_def
      scenario_many_to_one_annotation scenario_join_column scenario_owning_field
      add_to_importing_list_def scenario_owning_fragment_def scenario_owning_imports_def)

lemma scenario_one_to_many_annotation:
  \<open>generate_one_to_many_annotation_body ''Customer'' False False False False False False
       scenario_owning_imports =
     (''@OneToMany(mappedBy = "customer", orphanRemoval = false)'',
      scenario_owning_imports @ [''jakarta.persistence.OneToMany''])\<close>
  by (simp add: generate_one_to_many_annotation_body_def process_cascades_params_def
      cascades_list_def process_extra_params_def annotation_with_params_def snake_Customer
      add_to_importing_list_def scenario_owning_imports_def str_bool_def str_lower_def
      lower_char_def is_upper_A_Z_def is_upper_latin1_def)

lemma scenario_inverse_field:
  "generate_field_body ''Order'' True (Some LIST)
       (scenario_owning_imports @ [''jakarta.persistence.OneToMany'']) =
     (Inr ''private List<Order> orders = new ArrayList<>();'',
      scenario_owning_imports @
      [''jakarta.persistence.OneToMany'', ''java.util.List'', ''java.util.ArrayList''])"
  by (simp add: generate_field_body_def field_name_Order_plural add_to_importing_list_def
      scenario_owning_imports_def str_title_def upper_char_def lower_char_def is_upper_A_Z_def
      is_upper_latin1_def
      is_lower_a_z_def)

lemma scenario_inverse_template:
  \<open>generate_one_to_many_template order_file customer_file False False False False False False
       LIST scenario_owning_imports =
     (Inr scenario_inverse_fragment, scenario_all_imports)\<close>
proof -
  have \<open>generate_one_to_many_template order_file customer_file False False False False False
          False LIST scenario_owning_imports =
        (Inr ([CHR 0x0A, CHR 0x09] @ ''@OneToMany(mappedBy = "customer", orphanRemoval = false)'' @
              [CHR 0x0A, CHR 0x09] @ ''private List<Order> orders = new ArrayList<>();'' @
              [CHR 0x0A]),
         add_to_importing_list [''com.example.orders.Order'']
           (scenario_owning_imports @
            [''jakarta.persistence.OneToMany'', ''java.util.List'', ''java.util.ArrayList'']))\<close>
    by (simp add: generate_one_to_many_template_def customer_file_def order_file_def
        scenario_one_to_many_annotation scenario_inverse_field)
  then show ?thesis
    by (simp add: add_to_importing_list_def scenario_inverse_fragment_def
        scenario_all_imports_def scenario_owning_imports_def)
qed


















text \<open>
  Claim C1, as amended. In the end-to-end many-to-one scenario the fragment generated
  for the owning file \<open>Order.java\<close> is the annotation \<open>@ManyToOne(optional = false,
  fetch = FetchType.EAGER, cascade = {CascadeType.PERSIST, CascadeType.MERGE})\<close>, the
  join column \<open>@JoinColumn(name = "customer_id", nullable = false, unique = false)\<close> and
  the field \<open>private Customer customer;\<close>, and the fragment generated for the inverse
  file \<open>Customer.java\<close> is the annotation \<open>@OneToMany(mappedBy = "customer",
  orphanRemoval = false)\<close> and the field \<open>private List<Order> orders = new
  ArrayList<>();\<close>, each on a line of its own after a tab. The flags are read from the
  configuration as the creation command reads them.
\<close>

theorem many_to_one_scenario_fragments:
  \<open>fst (generate_many_to_one_template customer_file (fetch_type_enum scenario_args)
          (PERSIST \<in> owning_side_cascades_enum scenario_args)
          (MERGE \<in> owning_side_cascades_enum scenario_args)
          (REMOVE \<in> owning_side_cascades_enum scenario_args)
          (REFRESH \<in> owning_side_cascades_enum scenario_args)
          (DETACH \<in> owning_side_cascades_enum scenario_args)
          (MANDATORY \<in> owning_side_other_enum scenario_args)
          (UNIQUE \<in> owning_side_other_enum scenario_args) []) =
     Inr ([CHR 0x0A, CHR 0x09] @
          ''@ManyToOne(optional = false, fetch = FetchType.EAGER, cascade = {CascadeType.PERSIST, CascadeType.MERGE})'' @
          [CHR 0x0A, CHR 0x09] @
          ''@JoinColumn(name = "customer_id", nullable = false, unique = false)'' @
          [CHR 0x0A, CHR 0x09] @ ''private Customer customer;'' @ [CHR 0x0A]) \<and>
   fst (generate_one_to_many_template order_file customer_file
          (PERSIST \<in> inverse_side_cascades_enum scenario_args)
          (MERGE \<in> inverse_side_cascades_enum scenario_args)
          (REMOVE \<in> inverse_side_cascades_enum scenario_args)
          (REFRESH \<in> inverse_side_cascades_enum scenario_args)
          (DETACH \<in> inverse_side_cascades_enum scenario_args)
          (ORPHAN_REMOVAL \<in> inverse_side_other_enum scenario_args)
          (collection_type_enum scenario_args) scenario_owning_imports) =
     Inr ([CHR 0x0A, CHR 0x09] @ ''@OneToMany(mappedBy = "customer", orphanRemoval = false)'' @
          [CHR 0x0A, CHR 0x09] @ ''private List<Order> orders = new ArrayList<>();'' @
          [CHR 0x0A])\<close>
  by (simp add: scenario_flags scenario_owning_template scenario_inverse_template
      scenario_owning_fragment_def scenario_inverse_fragment_def)

text \<open>
  Claim C1, as stated, fails on the inverse file: the fragment generated there names the
  owning side's field, \<open>customer\<close>, in \<open>mappedBy\<close> and carries \<open>orphanRemoval = false\<close>; the
  annotation \<open>@OneToMany(mappedBy = "order")\<close> occurs nowhere in it.
\<close>

theorem one_to_many_scenario_counterexample:
  \<open>fst (generate_one_to_many_template order_file customer_file
          (PERSIST \<in> inverse_side_cascades_enum scenario_args)
          (MERGE \<in> inverse_side_cascades_enum scenario_args)
          (REMOVE \<in> inverse_side_cascades_enum scenario_args)
          (REFRESH \<in> inverse_side_cascades_enum scenario_args)
          (DETACH \<in> inverse_side_cascades_enum scenario_args)
          (ORPHAN_REMOVAL \<in> inverse_side_other_enum scenario_args)
          (collection_type_enum scenario_args) scenario_owning_imports) =
     Inr scenario_inverse_fragment \<and>
   \<not> sublist ''@OneToMany(mappedBy = "order")'' scenario_inverse_fragment\<close>
proof -
  have \<open>\<not> sublist ''@OneToMany(mappedBy = "order")'' scenario_inverse_fragment\<close>
    by code_simp
  then show ?thesis
    by (simp add: scenario_flags scenario_inverse_template)
qed

end
